theory Spec2Isabelle
  imports Complex_Main "HOL-Library.Code_Target_Nat"
begin

section \<open>Recorded tracking sessions: the data model\<close>

text \<open>
  The embedding follows \<^verbatim>\<open>tracking_dataset.cpp\<close>. A finite C++
  \<^verbatim>\<open>double\<close> is the \<^typ>\<open>real\<close> number it stands for (infinities and NaN are
  outside the model); what the code computes with doubles rounds, and is taken from the
  platform (see \<open>Library\<close> below). A \<^verbatim>\<open>size_t\<close> index is a \<^typ>\<open>nat\<close>, an \<^verbatim>\<open>Eigen::VectorXd\<close> is the list of its coefficients
  (\<^verbatim>\<open>rows()\<close> is its length) and a shared pointer is an \<^typ>\<open>'a option\<close>, the null
  pointer being \<^term>\<open>None\<close>. What is undefined behaviour in C++ (reading
  \<^verbatim>\<open>data_[i]\<close> past the end, dereferencing a null pointer) and what ends the process
  (an uncaught exception, \<^verbatim>\<open>exit(-1)\<close>) is a value of type \<open>error\<close>; so is the
  read of a variable that was never given a value.
  A member \<^verbatim>\<open>x_\<close> of a C++ class is the record field \<open>x'\<close>: a name cannot end
  with an underscore here.
\<close>

datatype error =
    OutOfRange
  | NullPointer
  | FilesystemError
  | BagException
  | UninitialisedRead
  | Exit int

text \<open>
  \<^verbatim>\<open>ros::Time\<close>: seconds and nanoseconds, two unsigned 32-bit fields that the code
  only reads. Written to a stream, a stamp is the seconds, a point and the nanoseconds
  in nine digits: the decimal number \<open>printed_stamp\<close>.
\<close>

record Time =
  sec :: nat
  nsec :: nat

definition printed_stamp :: "Time \<Rightarrow> real" where
  "printed_stamp t = real (sec t) + real (nsec t) / 1000000000"

record Header =
  stamp :: Time

text \<open>
  \<^verbatim>\<open>sensor_msgs::Image\<close> and \<^verbatim>\<open>sensor_msgs::CameraInfo\<close>. Both have a field
  \<^verbatim>\<open>header\<close>; the second is called \<open>info_header\<close> here, record fields being
  global names. \<open>K\<close> is the row-major 3x3 intrinsic matrix, a \<^verbatim>\<open>boost::array\<close> of
  nine doubles.
\<close>

record Image =
  header :: Header
  pixels :: "real list"

record CameraInfo =
  info_header :: Header
  K :: "real list"

type_synonym VectorXd = "real list"

record DataFrame =
  image' :: "Image option"
  info' :: "CameraInfo option"
  ground_truth' :: VectorXd

record TrackingDataset =
  path' :: string
  image_topic' :: string
  info_topic' :: string
  observations_filename' :: string
  ground_truth_filename' :: string
  admissible_delta_time' :: real
  data' :: "DataFrame list"

text \<open>
  Modelled from the spec: the two-argument \<^verbatim>\<open>DataFrame(image, info)\<close> takes its third
  argument from a default that is declared in \<^verbatim>\<open>tracking_dataset.hpp\<close>, which is not
  among the sources. The archive collaborator's frames carry an optional ground truth,
  absent unless attached; \<^verbatim>\<open>Store\<close> tests for its absence with \<^verbatim>\<open>rows() != 0\<close>. The
  default is therefore the vector with no rows.
\<close>

definition default_ground_truth :: VectorXd where
  "default_ground_truth = []"

text \<open>
  The literal \<^verbatim>\<open>0.02\<close> is the double nearest to it, a little above: \<open>0.02\<close> is not a
  binary fraction.
\<close>

definition double_0_02 :: real where
  "double_0_02 = 5764607523034235 / 2 ^ 58"

definition TrackingDataset_new :: "string \<Rightarrow> TrackingDataset" where
  "TrackingDataset_new path =
     \<lparr> path' = path,
       image_topic' = ''XTION/depth/image'',
       info_topic' = ''XTION/depth/camera_info'',
       observations_filename' = ''measurements.bag'',
       ground_truth_filename' = ''ground_truth.txt'',
       admissible_delta_time' = double_0_02,
       data' = [] \<rparr>"

definition AddFrame :: "TrackingDataset \<Rightarrow> Image option \<Rightarrow> CameraInfo option \<Rightarrow> VectorXd
    \<Rightarrow> TrackingDataset" where
  "AddFrame ds img info ground_truth =
     ds\<lparr> data' := data' ds @
       [\<lparr> image' = img, info' = info, ground_truth' = ground_truth \<rparr>] \<rparr>"

definition AddFrame2 :: "TrackingDataset \<Rightarrow> Image option \<Rightarrow> CameraInfo option
    \<Rightarrow> TrackingDataset" where
  "AddFrame2 ds img info =
     ds\<lparr> data' := data' ds @
       [\<lparr> image' = img, info' = info, ground_truth' = default_ground_truth \<rparr>] \<rparr>"

text \<open>\<^verbatim>\<open>data_[index]\<close> on a \<^verbatim>\<open>std::vector\<close>: undefined past the end.\<close>

definition data_at :: "DataFrame list \<Rightarrow> nat \<Rightarrow> error + DataFrame" where
  "data_at d index = (if index < length d then Inr (d ! index) else Inl OutOfRange)"

definition deref :: "'a option \<Rightarrow> error + 'a" where
  "deref p = (case p of None \<Rightarrow> Inl NullPointer | Some x \<Rightarrow> Inr x)"

definition GetImage :: "TrackingDataset \<Rightarrow> nat \<Rightarrow> error + Image option" where
  "GetImage ds index =
     (case data_at (data' ds) index of Inl e \<Rightarrow> Inl e | Inr f \<Rightarrow> Inr (image' f))"

definition GetInfo :: "TrackingDataset \<Rightarrow> nat \<Rightarrow> error + CameraInfo option" where
  "GetInfo ds index =
     (case data_at (data' ds) index of Inl e \<Rightarrow> Inl e | Inr f \<Rightarrow> Inr (info' f))"

definition GetGroundTruth :: "TrackingDataset \<Rightarrow> nat \<Rightarrow> error + VectorXd" where
  "GetGroundTruth ds index =
     (case data_at (data' ds) index of Inl e \<Rightarrow> Inl e | Inr f \<Rightarrow> Inr (ground_truth' f))"

definition Size :: "TrackingDataset \<Rightarrow> nat" where
  "Size ds = length (data' ds)"

subsection \<open>The camera matrix\<close>

text \<open>
  An \<^verbatim>\<open>Eigen::Matrix3d\<close> is its storage: nine coefficients, column after column.
  \<^verbatim>\<open>camera_matrix(row, col)\<close> is the coefficient at \<open>row + col * 3\<close>.
\<close>

type_synonym Matrix3d = "real list"

definition coeff :: "Matrix3d \<Rightarrow> nat \<Rightarrow> nat \<Rightarrow> real" where
  "coeff m row col = m ! (row + col * 3)"

definition set_coeff :: "Matrix3d \<Rightarrow> nat \<Rightarrow> nat \<Rightarrow> real \<Rightarrow> Matrix3d" where
  "set_coeff m row col v = m[row + col * 3 := v]"

text \<open>
  The declaration \<^verbatim>\<open>Eigen::Matrix3d camera_matrix;\<close> leaves the nine coefficients
  uninitialised. The model starts from zeros; the loops overwrite every coefficient
  (lemma \<open>fill_camera_matrix_any_start\<close>), so the choice does not show in a result.
\<close>

definition Matrix3d_uninitialised :: Matrix3d where
  "Matrix3d_uninitialised = replicate 9 0"

text \<open>The two nested loops, \<open>col\<close> outside and \<open>row\<close> inside, both over \<open>0, 1, 2\<close>.\<close>

definition fill_camera_matrix :: "real list \<Rightarrow> Matrix3d \<Rightarrow> Matrix3d" where
  "fill_camera_matrix k camera_matrix =
     fold (\<lambda>col m. fold (\<lambda>row m'. set_coeff m' row col (k ! (col + row * 3))) [0..<3] m)
       [0..<3] camera_matrix"

text \<open>
  \<^verbatim>\<open>GetCameraMatrix\<close> reads \<^verbatim>\<open>data_[0].info_->K\<close> whatever \<open>index\<close> is: the first
  read is undefined on a dataset with no frame, the second when frame 0 has no camera
  info.
\<close>

definition GetCameraMatrix :: "TrackingDataset \<Rightarrow> nat \<Rightarrow> error + Matrix3d" where
  "GetCameraMatrix ds index =
     (case data_at (data' ds) 0 of
        Inl e \<Rightarrow> Inl e
      | Inr f \<Rightarrow>
          (case deref (info' f) of
             Inl e \<Rightarrow> Inl e
           | Inr info \<Rightarrow> Inr (fill_camera_matrix (K info) Matrix3d_uninitialised)))"


section \<open>The file system and the bag library\<close>

text \<open>
  A bag file is the sequence of its messages, each with the topic and the time it was
  written under; \<^verbatim>\<open>instantiate<T>()\<close> yields a null pointer on a message of another
  type. A text file is the sequence of its lines, a line being the decimal numbers
  written on it, in order (the digits printed for a coefficient are not modelled, nor
  are lines that hold anything but numbers).
\<close>

datatype Payload = ImageMsg Image | InfoMsg CameraInfo | OtherMsg

record MessageInstance =
  getTopic :: string
  getTime :: Time
  payload :: Payload

definition instantiate_Image :: "MessageInstance \<Rightarrow> Image option" where
  "instantiate_Image m = (case payload m of ImageMsg i \<Rightarrow> Some i | _ \<Rightarrow> None)"

definition instantiate_CameraInfo :: "MessageInstance \<Rightarrow> CameraInfo option" where
  "instantiate_CameraInfo m = (case payload m of InfoMsg i \<Rightarrow> Some i | _ \<Rightarrow> None)"

datatype Node =
    Directory
  | BagFile "MessageInstance list"
  | TextFile "real list list"

text \<open>
  The file system: the nodes by path, and the operating system's answer to whether a
  node may be created or rewritten at a path (the parent exists, the permissions allow
  it).
\<close>

record FileSystem =
  nodes :: "string \<rightharpoonup> Node"
  permits :: "string \<Rightarrow> bool"

text \<open>
  \<^verbatim>\<open>boost::filesystem::path::operator/\<close>: a separator is put between the two parts
  unless one is there already.
\<close>

definition path_join :: "string \<Rightarrow> string \<Rightarrow> string" where
  "path_join p f =
     (if f = [] then p
      else if hd f \<noteq> CHR ''/'' \<and> p \<noteq> [] \<and> last p \<noteq> CHR ''/'' then p @ ''/'' @ f
      else p @ f)"

definition exists_path :: "FileSystem \<Rightarrow> string \<Rightarrow> bool" where
  "exists_path fs p = (nodes fs p \<noteq> None)"

text \<open>
  \<^verbatim>\<open>boost::filesystem::create_directory\<close>: nothing happens when the directory is
  there; it throws when the path is another kind of node or cannot be created.
\<close>

definition create_directory :: "FileSystem \<Rightarrow> string \<Rightarrow> error + FileSystem" where
  "create_directory fs p =
     (case nodes fs p of
        Some Directory \<Rightarrow> Inr fs
      | Some _ \<Rightarrow> Inl FilesystemError
      | None \<Rightarrow>
          if permits fs p then Inr (fs\<lparr> nodes := (nodes fs)(p \<mapsto> Directory) \<rparr>)
          else Inl FilesystemError)"

text \<open>
  \<^verbatim>\<open>rosbag::Bag::open\<close> throws when the file cannot be opened. In write mode the file
  is created empty, \<^verbatim>\<open>write\<close> appends a message and \<^verbatim>\<open>close\<close> leaves the written
  messages in the file. A write that the library refuses, or that fails on the device,
  is not modelled.
\<close>

definition bag_open_write :: "FileSystem \<Rightarrow> string \<Rightarrow> error + FileSystem" where
  "bag_open_write fs p =
     (if nodes fs p \<noteq> Some Directory \<and> permits fs p
      then Inr (fs\<lparr> nodes := (nodes fs)(p \<mapsto> BagFile []) \<rparr>)
      else Inl BagException)"

definition bag_close :: "FileSystem \<Rightarrow> string \<Rightarrow> MessageInstance list \<Rightarrow> FileSystem" where
  "bag_close fs p bag = fs\<lparr> nodes := (nodes fs)(p \<mapsto> BagFile bag) \<rparr>"

definition bag_open_read :: "FileSystem \<Rightarrow> string \<Rightarrow> error + MessageInstance list" where
  "bag_open_read fs p =
     (case nodes fs p of Some (BagFile bag) \<Rightarrow> Inr bag | _ \<Rightarrow> Inl BagException)"

text \<open>
  \<^verbatim>\<open>std::ofstream::open\<close> with \<^verbatim>\<open>out | trunc\<close> and \<^verbatim>\<open>std::ifstream::open\<close>;
  \<^term>\<open>None\<close> is a stream that is not open. A path that holds a directory or a bag
  is not read as text, nor one that holds something else read as a bag.
\<close>

definition ofstream_open :: "FileSystem \<Rightarrow> string \<Rightarrow> FileSystem option" where
  "ofstream_open fs p =
     (if nodes fs p \<noteq> Some Directory \<and> permits fs p
      then Some (fs\<lparr> nodes := (nodes fs)(p \<mapsto> TextFile []) \<rparr>)
      else None)"

definition ofstream_close :: "FileSystem \<Rightarrow> string \<Rightarrow> real list list \<Rightarrow> FileSystem" where
  "ofstream_close fs p file = fs\<lparr> nodes := (nodes fs)(p \<mapsto> TextFile file) \<rparr>"

definition ifstream_open :: "FileSystem \<Rightarrow> string \<Rightarrow> real list list option" where
  "ifstream_open fs p = (case nodes fs p of Some (TextFile file) \<Rightarrow> Some file | _ \<Rightarrow> None)"

text \<open>
  What \<^verbatim>\<open>Load\<close> uses of \<^verbatim>\<open>rosbag\<close>, \<^verbatim>\<open>message_filters\<close>, \<^verbatim>\<open>roscpp\<close> and the
  platform's double arithmetic, none of them code of this repository, is a parameter of
  the model: the messages a \<^verbatim>\<open>rosbag::View\<close> over a topic query iterates; the pairs a
  \<^verbatim>\<open>TimeSynchronizer\<close> of a given queue size hands to its callback when a message
  arrives, given the messages that arrived before; the double \<^verbatim>\<open>ros::Time::toSec()\<close>
  returns; the double that is the difference of two doubles; and the double that stream
  extraction (\<^verbatim>\<open>line >> scalar\<close>) gives for a decimal number.
\<close>

datatype Event = ImageEvent Image | InfoEvent CameraInfo

record Library =
  View :: "MessageInstance list \<Rightarrow> string list \<Rightarrow> MessageInstance list"
  TimeSynchronizer :: "nat \<Rightarrow> Event list \<Rightarrow> Event \<Rightarrow> (Image \<times> CameraInfo) list"
  toSec :: "Time \<Rightarrow> real"
  double_minus :: "real \<Rightarrow> real \<Rightarrow> real"
  parse_double :: "real \<Rightarrow> real"

section \<open>Storing a session\<close>

text \<open>
  The first loop of \<^verbatim>\<open>Store\<close>: for each index the image, then the camera info, each
  under its topic and its own stamp.
\<close>

function write_bag_loop :: "TrackingDataset \<Rightarrow> nat \<Rightarrow> MessageInstance list
    \<Rightarrow> error + MessageInstance list" where
  "write_bag_loop ds i bag =
     (if i < length (data' ds) then
        (case deref (image' (data' ds ! i)) of
           Inl e \<Rightarrow> Inl e
         | Inr img \<Rightarrow>
             (case deref (info' (data' ds ! i)) of
                Inl e \<Rightarrow> Inl e
              | Inr info \<Rightarrow>
                  write_bag_loop ds (i + 1)
                    (bag @
                      [\<lparr> getTopic = image_topic' ds, getTime = stamp (header img),
                         payload = ImageMsg img \<rparr>,
                       \<lparr> getTopic = info_topic' ds, getTime = stamp (info_header info),
                         payload = InfoMsg info \<rparr>])))
      else Inr bag)"
  by pat_completeness auto
termination
  by (relation "measure (\<lambda>(ds, i, bag). length (data' ds) - i)") auto

declare write_bag_loop.simps [simp del]

text \<open>
  The second loop: a line, the image's stamp and then the ground truth, for each frame
  whose ground truth has rows.
\<close>

function write_ground_truth_loop :: "TrackingDataset \<Rightarrow> nat \<Rightarrow> real list list
    \<Rightarrow> error + real list list" where
  "write_ground_truth_loop ds i file =
     (if i < length (data' ds) then
        (if length (ground_truth' (data' ds ! i)) \<noteq> 0 then
           (case deref (image' (data' ds ! i)) of
              Inl e \<Rightarrow> Inl e
            | Inr img \<Rightarrow>
                write_ground_truth_loop ds (i + 1)
                  (file @ [printed_stamp (stamp (header img)) # ground_truth' (data' ds ! i)]))
         else write_ground_truth_loop ds (i + 1) file)
      else Inr file)"
  by pat_completeness auto
termination
  by (relation "measure (\<lambda>(ds, i, file). length (data' ds) - i)") auto

declare write_ground_truth_loop.simps [simp del]

text \<open>
  \<^verbatim>\<open>Store\<close> returns the dataset and the file system it leaves. The message printed
  before the early return goes to the standard output, which is not a file here.
\<close>

definition Store :: "TrackingDataset \<Rightarrow> FileSystem \<Rightarrow> error + TrackingDataset \<times> FileSystem" where
  "Store ds fs =
     (if exists_path fs (path_join (path' ds) (observations_filename' ds)) \<or>
         exists_path fs (path_join (path' ds) (ground_truth_filename' ds))
      then Inr (ds, fs)
      else
        (case create_directory fs (path' ds) of
           Inl e \<Rightarrow> Inl e
         | Inr fs1 \<Rightarrow>
        (case bag_open_write fs1 (path_join (path' ds) (observations_filename' ds)) of
           Inl e \<Rightarrow> Inl e
         | Inr fs2 \<Rightarrow>
        (case write_bag_loop ds 0 [] of
           Inl e \<Rightarrow> Inl e
         | Inr bag \<Rightarrow>
        (case ofstream_open
                (bag_close fs2 (path_join (path' ds) (observations_filename' ds)) bag)
                (path_join (path' ds) (ground_truth_filename' ds)) of
           None \<Rightarrow> Inl (Exit (- 1))
         | Some fs3 \<Rightarrow>
        (case write_ground_truth_loop ds 0 [] of
           Inl e \<Rightarrow> Inl e
         | Inr file \<Rightarrow>
             Inr (ds, ofstream_close fs3
                   (path_join (path' ds) (ground_truth_filename' ds)) file)))))))"

section \<open>Loading a session\<close>

text \<open>
  \<^verbatim>\<open>newMessage\<close> on one of the two fake subscribers passes the message to the
  synchronizer, whose callback is \<^verbatim>\<open>AddFrame(image, info)\<close>. The state carried through
  the loop is the dataset and the messages passed so far.
\<close>

definition newMessage :: "Library \<Rightarrow> Event \<Rightarrow> TrackingDataset \<times> Event list
    \<Rightarrow> TrackingDataset \<times> Event list" where
  "newMessage lib ev st =
     (fold (\<lambda>(img, info) ds. AddFrame2 ds (Some img) (Some info))
        (TimeSynchronizer lib 25 (snd st) ev) (fst st),
      snd st @ [ev])"

text \<open>The body of the loop over the view: two tests, one after the other.\<close>

definition load_message :: "Library \<Rightarrow> MessageInstance \<Rightarrow> TrackingDataset \<times> Event list
    \<Rightarrow> TrackingDataset \<times> Event list" where
  "load_message lib m st =
     (let st1 =
        (if getTopic m = image_topic' (fst st) \<or> getTopic m = ''/'' @ image_topic' (fst st)
         then (case instantiate_Image m of
                 Some img \<Rightarrow> newMessage lib (ImageEvent img) st
               | None \<Rightarrow> st)
         else st)
      in
        (if getTopic m = info_topic' (fst st1) \<or> getTopic m = ''/'' @ info_topic' (fst st1)
         then (case instantiate_CameraInfo m of
                 Some info \<Rightarrow> newMessage lib (InfoEvent info) st1
               | None \<Rightarrow> st1)
         else st1))"

fun load_messages :: "Library \<Rightarrow> MessageInstance list \<Rightarrow> TrackingDataset \<times> Event list
    \<Rightarrow> TrackingDataset \<times> Event list" where
  "load_messages lib [] st = st"
| "load_messages lib (m # view) st = load_messages lib view (load_message lib m st)"

text \<open>
  One \<^verbatim>\<open>std::getline\<close>: the first line of the file, the empty line when there is
  none.
\<close>

definition getline :: "real list list \<Rightarrow> real list" where
  "getline file = (case file of [] \<Rightarrow> [] | temp # _ \<Rightarrow> temp)"

text \<open>
  \<^verbatim>\<open>double time_stamp; line >> time_stamp;\<close> The time stamp is the double extracted
  from the first number of the line. On a line without a number nothing is extracted
  and nothing is stored: \<open>time_stamp\<close> keeps no value (\<^term>\<open>None\<close>), the stream has
  failed and the loop after it reads nothing.
\<close>

definition read_time_stamp :: "Library \<Rightarrow> real list \<Rightarrow> real option" where
  "read_time_stamp lib line = (case line of [] \<Rightarrow> None | t # _ \<Rightarrow> Some (parse_double lib t))"

text \<open>The state is the doubles extracted from the numbers after it, appended one at a time.\<close>

definition read_state :: "Library \<Rightarrow> real list \<Rightarrow> VectorXd" where
  "read_state lib line =
     foldl (\<lambda>state scalar. state @ [scalar]) [] (map (parse_double lib) (tl line))"

text \<open>
  The loop that attaches the state to the frames within the admissible delta:
  \<^verbatim>\<open>std::fabs(data_[i].image_->header.stamp.toSec() - time_stamp) <=
  admissible_delta_time_\<close>, the difference being one of doubles. The comparison reads
  \<open>time_stamp\<close>, which is undefined when it has no value.
\<close>

function attach_loop :: "Library \<Rightarrow> real option \<Rightarrow> VectorXd \<Rightarrow> TrackingDataset \<Rightarrow> nat
    \<Rightarrow> error + TrackingDataset" where
  "attach_loop lib time_stamp state ds i =
     (if i < length (data' ds) then
        (case deref (image' (data' ds ! i)) of
           Inl e \<Rightarrow> Inl e
         | Inr img \<Rightarrow>
             (case time_stamp of
                None \<Rightarrow> Inl UninitialisedRead
              | Some t \<Rightarrow>
                  attach_loop lib time_stamp state
                    (if \<bar>double_minus lib (toSec lib (stamp (header img))) t\<bar>
                          \<le> admissible_delta_time' ds
                     then ds\<lparr> data' :=
                            (data' ds)[i := (data' ds ! i)\<lparr> ground_truth' := state \<rparr>] \<rparr>
                     else ds)
                    (i + 1)))
      else Inr ds)"
  by pat_completeness auto
termination
  by (relation "measure (\<lambda>(lib, time_stamp, state, ds, i). length (data' ds) - i)") auto

declare attach_loop.simps [simp del]

text \<open>
  \<^verbatim>\<open>Load\<close>. Before the loop the code prints the stamp of \<^verbatim>\<open>data_[0].image_\<close>, which
  is undefined on a dataset without frames or with a null image in frame 0.
\<close>

definition Load :: "Library \<Rightarrow> TrackingDataset \<Rightarrow> FileSystem \<Rightarrow> error + TrackingDataset" where
  "Load lib ds fs =
     (case bag_open_read fs (path_join (path' ds) (observations_filename' ds)) of
        Inl e \<Rightarrow> Inl e
      | Inr bag \<Rightarrow>
          (let topics = [image_topic' ds, info_topic' ds,
                         ''/'' @ image_topic' ds, ''/'' @ info_topic' ds];
               ds1 = fst (load_messages lib (View lib bag topics) (ds, []))
           in
             (case ifstream_open fs (path_join (path' ds1) (ground_truth_filename' ds1)) of
                None \<Rightarrow> Inl (Exit (- 1))
              | Some file \<Rightarrow>
                  (let temp = getline file;
                       time_stamp = read_time_stamp lib temp;
                       state = read_state lib temp
                   in
                     (case data_at (data' ds1) 0 of
                        Inl e \<Rightarrow> Inl e
                      | Inr f \<Rightarrow>
                          (case deref (image' f) of
                             Inl e \<Rightarrow> Inl e
                           | Inr img \<Rightarrow> attach_loop lib time_stamp state ds1 0))))))"

section \<open>The datasets a program can have\<close>

text \<open>
  A dataset is made by the constructor and changed by \<^verbatim>\<open>AddFrame\<close>, \<^verbatim>\<open>Load\<close> and
  \<^verbatim>\<open>Store\<close> only.
\<close>

inductive reachable :: "Library \<Rightarrow> TrackingDataset \<Rightarrow> bool" for lib :: Library where
  constructed: "reachable lib (TrackingDataset_new path)"
| added: "reachable lib ds \<Longrightarrow> reachable lib (AddFrame ds img info ground_truth)"
| added2: "reachable lib ds \<Longrightarrow> reachable lib (AddFrame2 ds img info)"
| loaded: "reachable lib ds \<Longrightarrow> Load lib ds fs = Inr ds1 \<Longrightarrow> reachable lib ds1"
| stored: "reachable lib ds \<Longrightarrow> Store ds fs = Inr (ds1, fs1) \<Longrightarrow> reachable lib ds1"

section \<open>The tracker builder\<close>

text \<open>
  \<^verbatim>\<open>rms_gaussian_filter_tracker_builder.hpp\<close> declares the parameter bundle and the
  builder's operations; their bodies are not among the sources. The bundle is the
  header's \<^verbatim>\<open>Parameters\<close>; the object resource identifier and the parameters of the
  transition model, whose types the header only names, are type parameters.
\<close>

record Observation =
  bg_depth :: real
  fg_noise_std :: real
  bg_noise_std :: real
  tail_weight :: real
  uniform_tail_min :: real
  uniform_tail_max :: real
  sensors :: int

record ('ori, 'transition) Parameters =
  ut_alpha :: real
  update_rate :: real
  ori :: 'ori
  observation :: Observation
  object_transition :: 'transition

datatype Backend = CPU | GPU

datatype build_error =
    InvalidParameterError string
  | ResourceNotFoundError
  | UnsupportedBackendError

text \<open>
  Modelled from the spec: the fields that have a range constraint in the table of the
  data model, in the table's order, the name the table gives each, and its constraint.
  The header has the fields and no constraint.
\<close>

datatype Field =
    Ut_alpha | Update_rate | Bg_depth | Fg_noise_std | Bg_noise_std | Tail_weight
  | Uniform_tail | Sensors

fun field_name :: "Field \<Rightarrow> string" where
  "field_name Ut_alpha = ''ut_alpha''"
| "field_name Update_rate = ''update_rate''"
| "field_name Bg_depth = ''observation.bg_depth''"
| "field_name Fg_noise_std = ''observation.fg_noise_std''"
| "field_name Bg_noise_std = ''observation.bg_noise_std''"
| "field_name Tail_weight = ''observation.tail_weight''"
| "field_name Uniform_tail = ''observation.uniform_tail_min/max''"
| "field_name Sensors = ''observation.sensors''"

fun in_range :: "Field \<Rightarrow> ('ori, 'transition) Parameters \<Rightarrow> bool" where
  "in_range Ut_alpha p = (ut_alpha p > 0)"
| "in_range Update_rate p = (0 < update_rate p \<and> update_rate p \<le> 1)"
| "in_range Bg_depth p = (bg_depth (observation p) > 0)"
| "in_range Fg_noise_std p = (fg_noise_std (observation p) \<ge> 0)"
| "in_range Bg_noise_std p = (bg_noise_std (observation p) \<ge> 0)"
| "in_range Tail_weight p =
     (0 \<le> tail_weight (observation p) \<and> tail_weight (observation p) \<le> 1)"
| "in_range Uniform_tail p =
     (uniform_tail_min (observation p) < uniform_tail_max (observation p))"
| "in_range Sensors p = (sensors (observation p) \<ge> 1)"

text \<open>
  Modelled from the spec: the first step of \<^verbatim>\<open>build\<close>, which the header does not
  declare. It checks the fields one after the other and fails with
  \<open>InvalidParameterError\<close>, naming the field, at the first that is out of range.
\<close>

definition validate :: "('ori, 'transition) Parameters \<Rightarrow> build_error + unit" where
  "validate p =
     (if \<not> ut_alpha p > 0 then Inl (InvalidParameterError ''ut_alpha'')
      else if \<not> (0 < update_rate p \<and> update_rate p \<le> 1)
        then Inl (InvalidParameterError ''update_rate'')
      else if \<not> bg_depth (observation p) > 0
        then Inl (InvalidParameterError ''observation.bg_depth'')
      else if \<not> fg_noise_std (observation p) \<ge> 0
        then Inl (InvalidParameterError ''observation.fg_noise_std'')
      else if \<not> bg_noise_std (observation p) \<ge> 0
        then Inl (InvalidParameterError ''observation.bg_noise_std'')
      else if \<not> (0 \<le> tail_weight (observation p) \<and> tail_weight (observation p) \<le> 1)
        then Inl (InvalidParameterError ''observation.tail_weight'')
      else if \<not> uniform_tail_min (observation p) < uniform_tail_max (observation p)
        then Inl (InvalidParameterError ''observation.uniform_tail_min/max'')
      else if \<not> sensors (observation p) \<ge> 1
        then Inl (InvalidParameterError ''observation.sensors'')
      else Inr ())"

text \<open>
  Modelled from the spec: the bodies of the operations the header declares. The object
  model is resolved from the resource identifier by the object-resource collaborator
  (\<open>resolve\<close>, which may find nothing). The observation model is the CPU one unless
  the GPU one is requested; a GPU request on a binary built without GPU support fails
  (the header: \<^verbatim>\<open>\throws NoGpuSupportException if compile with DBOT_BUILD_GPU=OFF and
  attempting to build a tracker with GPU support\<close>). The header's bundle has no field
  for the request, so the request and the build-time capability flag are arguments.
\<close>

record ('object, 'camera) ObservationModel =
  backend :: Backend
  renderer :: "'object \<times> 'camera"
  pixel_model :: Observation

record ('object, 'camera, 'transition) Filter =
  state_transition :: 'transition
  obsrv_model :: "('object, 'camera) ObservationModel"
  quadrature :: real
  fusion_rate :: real

definition create_object_model :: "('ori \<Rightarrow> 'object option) \<Rightarrow> 'ori \<Rightarrow> build_error + 'object" where
  "create_object_model resolve identifier =
     (case resolve identifier of None \<Rightarrow> Inl ResourceNotFoundError | Some m \<Rightarrow> Inr m)"

definition create_object_transition_model :: "'transition \<Rightarrow> 'transition" where
  "create_object_transition_model param = param"

definition create_renderer :: "'object \<Rightarrow> 'camera \<Rightarrow> 'object \<times> 'camera" where
  "create_renderer object_model camera_data = (object_model, camera_data)"

definition create_obsrv_model :: "bool \<Rightarrow> Backend \<Rightarrow> 'object \<Rightarrow> 'camera \<Rightarrow> Observation
    \<Rightarrow> build_error + ('object, 'camera) ObservationModel" where
  "create_obsrv_model gpu_built requested object_model camera_data param =
     (if requested = GPU \<and> \<not> gpu_built then Inl UnsupportedBackendError
      else Inr \<lparr> backend = requested,
                 renderer = create_renderer object_model camera_data,
                 pixel_model = param \<rparr>)"

definition build :: "bool \<Rightarrow> ('ori \<Rightarrow> 'object option) \<Rightarrow> Backend
    \<Rightarrow> ('ori, 'transition) Parameters \<Rightarrow> 'camera
    \<Rightarrow> build_error + ('object, 'camera, 'transition) Filter" where
  "build gpu_built resolve requested p camera_data =
     (case validate p of
        Inl e \<Rightarrow> Inl e
      | Inr _ \<Rightarrow>
     (case create_object_model resolve (ori p) of
        Inl e \<Rightarrow> Inl e
      | Inr object_model \<Rightarrow>
     (case create_obsrv_model gpu_built requested object_model camera_data (observation p) of
        Inl e \<Rightarrow> Inl e
      | Inr model \<Rightarrow>
          Inr \<lparr> state_transition = create_object_transition_model (object_transition p),
                obsrv_model = model,
                quadrature = ut_alpha p,
                fusion_rate = update_rate p \<rparr>)))"

section \<open>What the loops compute\<close>

text \<open>
  Closed forms of the loops, for the statements below: the two messages \<^verbatim>\<open>Store\<close>
  writes for a frame, the line it writes for a frame with a ground truth, and the frame
  \<^verbatim>\<open>Load\<close> leaves after comparing its image's stamp with the time stamp read. A
  frame is complete when neither of its pointers is null; \<open>from_bag\<close> holds of a frame
  as the synchronizer's callback appends it.
\<close>

definition frame_messages :: "TrackingDataset \<Rightarrow> DataFrame \<Rightarrow> MessageInstance list" where
  "frame_messages ds f =
     [\<lparr> getTopic = image_topic' ds, getTime = stamp (header (the (image' f))),
        payload = ImageMsg (the (image' f)) \<rparr>,
      \<lparr> getTopic = info_topic' ds, getTime = stamp (info_header (the (info' f))),
        payload = InfoMsg (the (info' f)) \<rparr>]"

definition ground_truth_line :: "DataFrame \<Rightarrow> real list" where
  "ground_truth_line f = printed_stamp (stamp (header (the (image' f)))) # ground_truth' f"

definition complete :: "DataFrame \<Rightarrow> bool" where
  "complete f = (image' f \<noteq> None \<and> info' f \<noteq> None)"

definition from_bag :: "DataFrame \<Rightarrow> bool" where
  "from_bag f = (image' f \<noteq> None \<and> info' f \<noteq> None \<and> ground_truth' f = [])"

definition attach :: "Library \<Rightarrow> real \<Rightarrow> real \<Rightarrow> VectorXd \<Rightarrow> DataFrame \<Rightarrow> DataFrame" where
  "attach lib delta time_stamp state f =
     (if \<bar>double_minus lib (toSec lib (stamp (header (the (image' f))))) time_stamp\<bar> \<le> delta
      then f\<lparr> ground_truth' := state \<rparr> else f)"

section \<open>Example sessions\<close>

text \<open>
  Two frames with different calibrations: index 1 still gets the matrix of frame 0.
\<close>

definition calibration_a :: CameraInfo where
  "calibration_a =
     \<lparr> info_header = \<lparr> stamp = \<lparr> sec = 10, nsec = 0 \<rparr> \<rparr>,
       K = [525, 0, 320, 0, 526, 240, 0, 0, 1] \<rparr>"

definition calibration_b :: CameraInfo where
  "calibration_b =
     \<lparr> info_header = \<lparr> stamp = \<lparr> sec = 11, nsec = 0 \<rparr> \<rparr>,
       K = [570, 0, 314, 0, 571, 235, 0, 0, 1] \<rparr>"

definition two_calibrations :: TrackingDataset where
  "two_calibrations =
     AddFrame2 (AddFrame2 (TrackingDataset_new ''session'') None (Some calibration_a))
       None (Some calibration_b)"

text \<open>
  A session of three frames, the second without ground truth; a disk with nothing on
  it and one where a ground-truth log is already at the session's path.
\<close>

definition depth_image :: "nat \<Rightarrow> nat \<Rightarrow> Image" where
  "depth_image s ns = \<lparr> header = \<lparr> stamp = \<lparr> sec = s, nsec = ns \<rparr> \<rparr>, pixels = [] \<rparr>"

definition camera_info :: "nat \<Rightarrow> nat \<Rightarrow> CameraInfo" where
  "camera_info s ns =
     \<lparr> info_header = \<lparr> stamp = \<lparr> sec = s, nsec = ns \<rparr> \<rparr>,
       K = [525, 0, 320, 0, 525, 240, 0, 0, 1] \<rparr>"

definition recorded_session :: TrackingDataset where
  "recorded_session =
     AddFrame
       (AddFrame2
         (AddFrame (TrackingDataset_new ''session'')
            (Some (depth_image 100 0)) (Some (camera_info 100 0)) [1, 2, 3])
         (Some (depth_image 101 0)) (Some (camera_info 101 0)))
       (Some (depth_image 102 500000000)) (Some (camera_info 102 500000000)) [4, 5]"

definition empty_disk :: FileSystem where
  "empty_disk = \<lparr> nodes = Map.empty, permits = (\<lambda>p. True) \<rparr>"

definition disk_with_log :: FileSystem where
  "disk_with_log =
     \<lparr> nodes = [''session/ground_truth.txt'' \<mapsto> TextFile [[100, 1, 2, 3]]],
       permits = (\<lambda>p. True) \<rparr>"

text \<open>
  The arithmetic of the examples is IEEE 754 binary64 with rounding to nearest, ties to
  even, one rounding for each operation: \<open>round_binary64\<close> gives the double nearest to
  a real number whose magnitude is in the normal range (\<open>binade\<close> finds its exponent,
  the unit in the last place is 52 binary places below). \<^verbatim>\<open>toSec()\<close> is roscpp's
  \<^verbatim>\<open>(double)sec + 1e-9*(double)nsec\<close>, the literal being the double nearest to it.
\<close>

definition round_half_even :: "real \<Rightarrow> int" where
  "round_half_even y =
     (let f = \<lfloor>y\<rfloor>; r = y - of_int f
      in if r < 1 / 2 then f else if r > 1 / 2 then f + 1 else if even f then f else f + 1)"

fun binade :: "nat \<Rightarrow> real \<Rightarrow> int" where
  "binade 0 x = 0"
| "binade (Suc fuel) x =
     (if 2 \<le> x then binade fuel (x / 2) + 1
      else if x < 1 then binade fuel (x * 2) - 1
      else 0)"

definition round_binary64 :: "real \<Rightarrow> real" where
  "round_binary64 x =
     (if x = 0 then 0
      else let u = 2 powi (binade 1100 \<bar>x\<bar> - 52) in u * of_int (round_half_even (x / u)))"

definition double_1e_9 :: real where
  "double_1e_9 = 4835703278458517 / 2 ^ 82"

definition binary64_toSec :: "Time \<Rightarrow> real" where
  "binary64_toSec t =
     round_binary64 (real (sec t) + round_binary64 (double_1e_9 * real (nsec t)))"

text \<open>
  The library of the examples iterates the messages of the queried topics in the order
  of the file, pairs a message with each earlier message of the other kind that has the
  same stamp, and computes in binary64.
\<close>

definition pairing_library :: Library where
  "pairing_library =
     \<lparr> View = (\<lambda>bag topics. filter (\<lambda>m. getTopic m \<in> set topics) bag),
       TimeSynchronizer = (\<lambda>queue_size earlier ev.
         (case ev of
            ImageEvent img \<Rightarrow>
              List.map_filter
                (\<lambda>e. case e of
                       InfoEvent info \<Rightarrow>
                         if stamp (info_header info) = stamp (header img)
                         then Some (img, info) else None
                     | ImageEvent _ \<Rightarrow> None) earlier
          | InfoEvent info \<Rightarrow>
              List.map_filter
                (\<lambda>e. case e of
                       ImageEvent img \<Rightarrow>
                         if stamp (header img) = stamp (info_header info)
                         then Some (img, info) else None
                     | InfoEvent _ \<Rightarrow> None) earlier)),
       toSec = binary64_toSec,
       double_minus = (\<lambda>a b. round_binary64 (a - b)),
       parse_double = round_binary64 \<rparr>"

text \<open>
  A dataset with one annotated frame, stamped 300 s, loads a recording of two frames,
  stamped 200.01 s and 200.02 s, whose log has two entries, the first at 200 s. The
  session after the load: the annotated frame as it was, the first recorded frame with
  the state of the first entry, the second without ground truth.
\<close>

definition annotated_session :: TrackingDataset where
  "annotated_session =
     AddFrame (TrackingDataset_new ''session'')
       (Some (depth_image 300 0)) (Some (camera_info 300 0)) [7, 8, 9]"

definition recorded_disk :: FileSystem where
  "recorded_disk =
     \<lparr> nodes =
         [''session'' \<mapsto> Directory,
          ''session/measurements.bag'' \<mapsto> BagFile
            [\<lparr> getTopic = ''XTION/depth/image'',
               getTime = \<lparr> sec = 200, nsec = 10000000 \<rparr>,
               payload = ImageMsg (depth_image 200 10000000) \<rparr>,
             \<lparr> getTopic = ''XTION/depth/camera_info'',
               getTime = \<lparr> sec = 200, nsec = 10000000 \<rparr>,
               payload = InfoMsg (camera_info 200 10000000) \<rparr>,
             \<lparr> getTopic = ''/tf'', getTime = \<lparr> sec = 200, nsec = 5 \<rparr>, payload = OtherMsg \<rparr>,
             \<lparr> getTopic = ''/XTION/depth/image'',
               getTime = \<lparr> sec = 200, nsec = 20000000 \<rparr>,
               payload = ImageMsg (depth_image 200 20000000) \<rparr>,
             \<lparr> getTopic = ''/XTION/depth/camera_info'',
               getTime = \<lparr> sec = 200, nsec = 20000000 \<rparr>,
               payload = InfoMsg (camera_info 200 20000000) \<rparr>],
          ''session/ground_truth.txt'' \<mapsto> TextFile [[200, 1, 2, 3], [201, 4, 5, 6]]],
       permits = (\<lambda>p. True) \<rparr>"

definition loaded_session :: TrackingDataset where
  "loaded_session =
     AddFrame
       (AddFrame annotated_session
          (Some (depth_image 200 10000000)) (Some (camera_info 200 10000000)) [1, 2, 3])
       (Some (depth_image 200 20000000)) (Some (camera_info 200 20000000)) []"

text \<open>A disk whose ground-truth log is empty.\<close>

definition blank_log_disk :: FileSystem where
  "blank_log_disk =
     \<lparr> nodes =
         [''session'' \<mapsto> Directory,
          ''session/measurements.bag'' \<mapsto> BagFile [],
          ''session/ground_truth.txt'' \<mapsto> TextFile []],
       permits = (\<lambda>p. True) \<rparr>"

text \<open>
  A parameter bundle with every field in range, and a resource collaborator that knows
  its object.
\<close>

definition example_parameters :: "(string, unit) Parameters" where
  "example_parameters =
     \<lparr> ut_alpha = 1, update_rate = 1, ori = ''ori'',
       observation =
         \<lparr> bg_depth = 7 / 2, fg_noise_std = 1 / 1000, bg_noise_std = 1,
           tail_weight = 1 / 100, uniform_tail_min = 1 / 100, uniform_tail_max = 7 / 2,
           sensors = 1 \<rparr>,
       object_transition = () \<rparr>"

definition example_resources :: "string \<Rightarrow> nat option" where
  "example_resources = [''ori'' \<mapsto> 0]"

section \<open>Properties of the camera matrix\<close>

lemma upt_0_3: "[0..<3] = [0, Suc 0, Suc (Suc 0)]"
  by (simp add: upt_rec numeral_3_eq_3)

lemma fill_camera_matrix_any_start:
  assumes "length m = 9"
  shows "fill_camera_matrix k m =
    [k ! 0, k ! 3, k ! 6, k ! 1, k ! 4, k ! 7, k ! 2, k ! 5, k ! 8]"
proof -
  obtain a0 a1 a2 a3 a4 a5 a6 a7 a8 where m: "m = [a0, a1, a2, a3, a4, a5, a6, a7, a8]"
    using assms
    by (auto simp: length_Suc_conv eval_nat_numeral)
  show ?thesis
    unfolding m fill_camera_matrix_def upt_0_3
    by (simp add: set_coeff_def eval_nat_numeral)
qed

text \<open>
  C8. \<^verbatim>\<open>GetCameraMatrix\<close> ignores its index. On a dataset whose frame 0 has a camera
  info, every index, in range or not, gets the matrix of frame 0's \<open>K\<close>: in storage
  order the transposed row-major array, so that the coefficient at \<open>(row, col)\<close> is
  \<open>K[col + row * 3]\<close> of frame 0. The calibrations of the other frames are never read.
\<close>

theorem GetCameraMatrix_ignores_index:
  assumes "data' ds = f # rest" and "info' f = Some info"
  shows "GetCameraMatrix ds index =
      Inr [K info ! 0, K info ! 3, K info ! 6, K info ! 1, K info ! 4, K info ! 7,
           K info ! 2, K info ! 5, K info ! 8]
    \<and> GetCameraMatrix ds index = GetCameraMatrix ds 0
    \<and> (\<forall>m. GetCameraMatrix ds index = Inr m \<longrightarrow>
         (\<forall>row < 3. \<forall>col < 3. coeff m row col = K info ! (col + row * 3)))"
proof -
  have g: "GetCameraMatrix ds i =
      Inr [K info ! 0, K info ! 3, K info ! 6, K info ! 1, K info ! 4, K info ! 7,
           K info ! 2, K info ! 5, K info ! 8]" for i
    using assms
    by (simp add: GetCameraMatrix_def data_at_def deref_def Matrix3d_uninitialised_def
        fill_camera_matrix_any_start)
  have c: "coeff [K info ! 0, K info ! 3, K info ! 6, K info ! 1, K info ! 4, K info ! 7,
           K info ! 2, K info ! 5, K info ! 8] row col = K info ! (col + row * 3)"
    if "row < 3" and "col < 3" for row col
  proof -
    from that have "row = 0 \<or> row = 1 \<or> row = 2" and "col = 0 \<or> col = 1 \<or> col = 2"
      by arith+
    then show ?thesis
      by (auto simp: coeff_def eval_nat_numeral)
  qed
  show ?thesis
    using g c by simp
qed

theorem GetCameraMatrix_ignores_index_witness:
  "GetCameraMatrix two_calibrations 1 = Inr [525, 0, 0, 0, 526, 0, 320, 240, 1]
   \<and> GetCameraMatrix two_calibrations 1 = GetCameraMatrix two_calibrations 0
   \<and> GetCameraMatrix two_calibrations 7 = Inr [525, 0, 0, 0, 526, 0, 320, 240, 1]
   \<and> K calibration_b \<noteq> K calibration_a"
  using GetCameraMatrix_ignores_index
    [of two_calibrations
        "\<lparr> image' = None, info' = Some calibration_a, ground_truth' = default_ground_truth \<rparr>"
        "[\<lparr> image' = None, info' = Some calibration_b, ground_truth' = default_ground_truth \<rparr>]"
        calibration_a]
  by (simp add: two_calibrations_def AddFrame2_def TrackingDataset_new_def
      calibration_a_def calibration_b_def)

section \<open>Properties of the loops\<close>

lemma write_bag_loop_complete:
  "list_all complete (drop i (data' ds)) \<Longrightarrow>
   write_bag_loop ds i bag = Inr (bag @ concat (map (frame_messages ds) (drop i (data' ds))))"
proof (induction ds i bag rule: write_bag_loop.induct)
  case (1 ds i bag)
  show ?case
  proof (cases "i < length (data' ds)")
    case False
    then show ?thesis by (subst write_bag_loop.simps) simp
  next
    case True
    then have d: "drop i (data' ds) = data' ds ! i # drop (Suc i) (data' ds)"
      by (simp add: Cons_nth_drop_Suc)
    with "1.prems" have c: "complete (data' ds ! i)" and r: "list_all complete (drop (Suc i) (data' ds))"
      by simp_all
    from c obtain img info where i: "image' (data' ds ! i) = Some img" "info' (data' ds ! i) = Some info"
      by (auto simp: complete_def)
    have m: "frame_messages ds (data' ds ! i) =
        [\<lparr> getTopic = image_topic' ds, getTime = stamp (header img), payload = ImageMsg img \<rparr>,
         \<lparr> getTopic = info_topic' ds, getTime = stamp (info_header info), payload = InfoMsg info \<rparr>]"
      by (simp add: frame_messages_def i)
    have "write_bag_loop ds i bag = write_bag_loop ds (i + 1) (bag @ frame_messages ds (data' ds ! i))"
      using True i by (subst write_bag_loop.simps) (simp add: deref_def m)
    also have "\<dots> = Inr ((bag @ frame_messages ds (data' ds ! i)) @ concat (map (frame_messages ds) (drop (Suc i) (data' ds))))"
      unfolding m using "1.IH"[OF True, of img info] i r by (simp add: deref_def)
    finally show ?thesis by (simp add: d)
  qed
qed

lemma write_bag_loop_incomplete:
  "\<not> list_all complete (drop i (data' ds)) \<Longrightarrow> write_bag_loop ds i bag = Inl NullPointer"
proof (induction ds i bag rule: write_bag_loop.induct)
  case (1 ds i bag)
  show ?case
  proof (cases "i < length (data' ds)")
    case False
    with "1.prems" show ?thesis by simp
  next
    case True
    then have d: "drop i (data' ds) = data' ds ! i # drop (Suc i) (data' ds)"
      by (simp add: Cons_nth_drop_Suc)
    show ?thesis
    proof (cases "complete (data' ds ! i)")
      case False
      then show ?thesis using True
        by (subst write_bag_loop.simps) (auto simp: deref_def complete_def split: option.splits)
    next
      case c: True
      with "1.prems" d have r: "\<not> list_all complete (drop (Suc i) (data' ds))" by simp
      from c obtain img info where i: "image' (data' ds ! i) = Some img" "info' (data' ds ! i) = Some info"
        by (auto simp: complete_def)
      show ?thesis
        using "1.IH"[OF True, of img info] i r True
        by (subst write_bag_loop.simps) (simp add: deref_def)
    qed
  qed
qed

lemma write_ground_truth_loop_complete:
  "list_all complete (drop i (data' ds)) \<Longrightarrow>
   write_ground_truth_loop ds i out =
     Inr (out @ map ground_truth_line
            (filter (\<lambda>f. length (ground_truth' f) \<noteq> 0) (drop i (data' ds))))"
proof (induction ds i out rule: write_ground_truth_loop.induct)
  case (1 ds i out)
  show ?case
  proof (cases "i < length (data' ds)")
    case False
    then show ?thesis by (subst write_ground_truth_loop.simps) simp
  next
    case True
    then have d: "drop i (data' ds) = data' ds ! i # drop (Suc i) (data' ds)"
      by (simp add: Cons_nth_drop_Suc)
    with "1.prems" have c: "complete (data' ds ! i)"
      and r: "list_all complete (drop (Suc i) (data' ds))"
      by simp_all
    from c obtain img where i: "image' (data' ds ! i) = Some img"
      by (auto simp: complete_def)
    show ?thesis
    proof (cases "length (ground_truth' (data' ds ! i)) \<noteq> 0")
      case rows: True
      have "write_ground_truth_loop ds i out =
          write_ground_truth_loop ds (i + 1) (out @ [ground_truth_line (data' ds ! i)])"
        using True rows i
        by (subst write_ground_truth_loop.simps) (simp add: deref_def ground_truth_line_def)
      also have "\<dots> = Inr ((out @ [ground_truth_line (data' ds ! i)]) @
          map ground_truth_line
            (filter (\<lambda>f. length (ground_truth' f) \<noteq> 0) (drop (Suc i) (data' ds))))"
        using "1.IH"(1)[OF True rows, of img] i r
        by (simp add: deref_def ground_truth_line_def)
      finally show ?thesis using rows by (simp add: d)
    next
      case norows: False
      have "write_ground_truth_loop ds i out = write_ground_truth_loop ds (i + 1) out"
        using True norows by (subst write_ground_truth_loop.simps) simp
      also have "\<dots> = Inr (out @ map ground_truth_line
            (filter (\<lambda>f. length (ground_truth' f) \<noteq> 0) (drop (Suc i) (data' ds))))"
        using "1.IH"(2)[OF True norows] r by simp
      finally show ?thesis using norows by (simp add: d)
    qed
  qed
qed

lemma path_join_neq_self: "f \<noteq> [] \<Longrightarrow> path_join p f \<noteq> p"
  by (simp add: path_join_def)

lemma path_join_inject:
  "f \<noteq> [] \<Longrightarrow> g \<noteq> [] \<Longrightarrow> hd f \<noteq> CHR ''/'' \<Longrightarrow> hd g \<noteq> CHR ''/'' \<Longrightarrow>
   path_join p f = path_join p g \<longleftrightarrow> f = g"
  by (simp add: path_join_def)

lemma fold_AddFrame2:
  "fold (\<lambda>(img, info) ds. AddFrame2 ds (Some img) (Some info)) ps ds =
   ds\<lparr> data' := data' ds @
     map (\<lambda>(img, info). \<lparr> image' = Some img, info' = Some info,
                          ground_truth' = default_ground_truth \<rparr>) ps \<rparr>"
  by (induction ps arbitrary: ds) (auto simp: AddFrame2_def)

lemma newMessage_appends:
  "\<exists>new. list_all from_bag new \<and>
     fst (newMessage lib ev st) = (fst st)\<lparr> data' := data' (fst st) @ new \<rparr>"
  unfolding newMessage_def fst_conv fold_AddFrame2
  by (rule exI, rule conjI[OF _ refl])
     (simp add: list_all_iff from_bag_def default_ground_truth_def split_beta)

lemma load_message_appends:
  "\<exists>new. list_all from_bag new \<and>
     fst (load_message lib m st) = (fst st)\<lparr> data' := data' (fst st) @ new \<rparr>"
proof -
  have keep: "\<exists>new. list_all from_bag new \<and> fst s = (fst s)\<lparr> data' := data' (fst s) @ new \<rparr>"
    for s :: "TrackingDataset \<times> Event list"
    by (rule exI[of _ "[]"]) simp
  define st1 where "st1 =
        (if getTopic m = image_topic' (fst st) \<or> getTopic m = ''/'' @ image_topic' (fst st)
         then (case instantiate_Image m of
                 Some img \<Rightarrow> newMessage lib (ImageEvent img) st
               | None \<Rightarrow> st)
         else st)"
  define st2 where "st2 =
        (if getTopic m = info_topic' (fst st1) \<or> getTopic m = ''/'' @ info_topic' (fst st1)
         then (case instantiate_CameraInfo m of
                 Some info \<Rightarrow> newMessage lib (InfoEvent info) st1
               | None \<Rightarrow> st1)
         else st1)"
  have 1: "\<exists>new. list_all from_bag new \<and> fst st1 = (fst st)\<lparr> data' := data' (fst st) @ new \<rparr>"
    unfolding st1_def using keep[of st] newMessage_appends[of lib _ st]
    by (auto split: option.splits)
  have 2: "\<exists>new. list_all from_bag new \<and> fst st2 = (fst st1)\<lparr> data' := data' (fst st1) @ new \<rparr>"
    unfolding st2_def using keep[of st1] newMessage_appends[of lib _ st1]
    by (auto split: option.splits)
  from 1 obtain n1 where n1: "list_all from_bag n1"
      "fst st1 = (fst st)\<lparr> data' := data' (fst st) @ n1 \<rparr>" by blast
  from 2 obtain n2 where n2: "list_all from_bag n2"
      "fst st2 = (fst st1)\<lparr> data' := data' (fst st1) @ n2 \<rparr>" by blast
  have "load_message lib m st = st2"
    unfolding load_message_def Let_def st2_def st1_def by (rule refl)
  moreover have "list_all from_bag (n1 @ n2)" using n1 n2 by simp
  moreover have "fst st2 = (fst st)\<lparr> data' := data' (fst st) @ (n1 @ n2) \<rparr>"
    using n1 n2 by simp
  ultimately show ?thesis by metis
qed

lemma load_messages_appends:
  "\<exists>new. list_all from_bag new \<and>
     fst (load_messages lib view st) = (fst st)\<lparr> data' := data' (fst st) @ new \<rparr>"
proof (induction view arbitrary: st)
  case Nil
  show ?case by (simp, rule exI[of _ "[]"]) simp
next
  case (Cons m view)
  from load_message_appends[of lib m st] obtain n1 where n1: "list_all from_bag n1"
      "fst (load_message lib m st) = (fst st)\<lparr> data' := data' (fst st) @ n1 \<rparr>" by blast
  from Cons.IH[of "load_message lib m st"] obtain n2 where n2: "list_all from_bag n2"
      "fst (load_messages lib view (load_message lib m st)) =
         (fst (load_message lib m st))\<lparr> data' := data' (fst (load_message lib m st)) @ n2 \<rparr>"
    by blast
  have "list_all from_bag (n1 @ n2)" using n1 n2 by simp
  moreover have "fst (load_messages lib (m # view) st) =
      (fst st)\<lparr> data' := data' (fst st) @ (n1 @ n2) \<rparr>"
    using n1 n2 by simp
  ultimately show ?case by metis
qed

lemma attach_loop_images:
  "list_all (\<lambda>f. image' f \<noteq> None) (drop i (data' ds)) \<Longrightarrow>
   attach_loop lib (Some t) state ds i =
     Inr (ds\<lparr> data' := take i (data' ds) @
            map (attach lib (admissible_delta_time' ds) t state) (drop i (data' ds)) \<rparr>)"
proof (induction lib "Some t :: real option" state ds i rule: attach_loop.induct)
  case (1 lib state ds i)
  show ?case
  proof (cases "i < length (data' ds)")
    case False
    then show ?thesis by (subst attach_loop.simps) simp
  next
    case True
    then have d: "drop i (data' ds) = data' ds ! i # drop (Suc i) (data' ds)"
      by (simp add: Cons_nth_drop_Suc)
    with "1.prems" obtain img where i: "image' (data' ds ! i) = Some img"
      and r: "list_all (\<lambda>f. image' f \<noteq> None) (drop (Suc i) (data' ds))"
      by auto
    define ds1 where "ds1 =
      (if \<bar>double_minus lib (toSec lib (stamp (header img))) t\<bar> \<le> admissible_delta_time' ds
       then ds\<lparr> data' := (data' ds)[i := (data' ds ! i)\<lparr> ground_truth' := state \<rparr>] \<rparr>
       else ds)"
    have a: "data' ds1 =
        (data' ds)[i := attach lib (admissible_delta_time' ds) t state (data' ds ! i)]"
      by (simp add: ds1_def attach_def i)
    have s: "ds1\<lparr> data' := xs \<rparr> = ds\<lparr> data' := xs \<rparr>"
        "admissible_delta_time' ds1 = admissible_delta_time' ds" for xs
      by (simp_all add: ds1_def)
    have t: "take (Suc i) (data' ds1) =
        take i (data' ds) @ [attach lib (admissible_delta_time' ds) t state (data' ds ! i)]"
      using True by (simp add: a take_Suc_conv_app_nth)
    have "attach_loop lib (Some t) state ds i = attach_loop lib (Some t) state ds1 (i + 1)"
      using True i by (subst attach_loop.simps) (simp add: deref_def ds1_def)
    also have "\<dots> = Inr (ds1\<lparr> data' := take (i + 1) (data' ds1) @
        map (attach lib (admissible_delta_time' ds1) t state) (drop (i + 1) (data' ds1)) \<rparr>)"
      using "1.hyps"[OF True, of img t] i r
      by (simp add: deref_def ds1_def[symmetric] a)
    finally show ?thesis
      by (simp add: s t d) (simp add: a)
  qed
qed

lemma attach_loop_null:
  "\<not> list_all (\<lambda>f. image' f \<noteq> None) (drop i (data' ds)) \<Longrightarrow>
   attach_loop lib (Some t) state ds i = Inl NullPointer"
proof (induction lib "Some t :: real option" state ds i rule: attach_loop.induct)
  case (1 lib state ds i)
  show ?case
  proof (cases "i < length (data' ds)")
    case False
    with "1.prems" show ?thesis by simp
  next
    case True
    then have d: "drop i (data' ds) = data' ds ! i # drop (Suc i) (data' ds)"
      by (simp add: Cons_nth_drop_Suc)
    show ?thesis
    proof (cases "image' (data' ds ! i)")
      case None
      then show ?thesis using True
        by (subst attach_loop.simps) (simp add: deref_def)
    next
      case (Some img)
      with "1.prems" d have r: "\<not> list_all (\<lambda>f. image' f \<noteq> None) (drop (Suc i) (data' ds))"
        by simp
      show ?thesis
        using "1.hyps"[OF True, of img t] Some r True
        by (subst attach_loop.simps) (simp add: deref_def)
    qed
  qed
qed

lemma attach_loop_uninitialised:
  "i < length (data' ds) \<Longrightarrow> attach_loop lib None state ds i \<noteq> Inr ds1"
  by (subst attach_loop.simps) (simp add: deref_def split: option.splits)

lemma read_state_tl: "read_state lib line = map (parse_double lib) (tl line)"
proof -
  have "foldl (\<lambda>state scalar. state @ [scalar]) acc xs = acc @ xs" for acc xs :: "real list"
    by (induction xs arbitrary: acc) simp_all
  then show ?thesis by (simp add: read_state_def)
qed

lemma Load_result:
  assumes "Load lib ds fs = Inr ds1"
  shows "\<exists>new entries t rest. list_all from_bag new
    \<and> nodes fs (path_join (path' ds) (ground_truth_filename' ds)) = Some (TextFile entries)
    \<and> getline entries = t # rest
    \<and> data' ds @ new \<noteq> []
    \<and> list_all (\<lambda>f. image' f \<noteq> None) (data' ds @ new)
    \<and> ds1 = ds\<lparr> data' := map (attach lib (admissible_delta_time' ds)
                 (parse_double lib t) (map (parse_double lib) rest))
               (data' ds @ new) \<rparr>"
proof -
  from assms obtain bag where bag:
    "bag_open_read fs (path_join (path' ds) (observations_filename' ds)) = Inr bag"
    by (cases "bag_open_read fs (path_join (path' ds) (observations_filename' ds))")
       (simp_all add: Load_def)
  define view where "view = View lib bag [image_topic' ds, info_topic' ds,
                         ''/'' @ image_topic' ds, ''/'' @ info_topic' ds]"
  define ds0 where "ds0 = fst (load_messages lib view (ds, []))"
  from load_messages_appends[of lib view "(ds, [])"] obtain new
    where new: "list_all from_bag new" and ds0: "ds0 = ds\<lparr> data' := data' ds @ new \<rparr>"
    unfolding ds0_def by auto
  have L: "Load lib ds fs =
     (case ifstream_open fs (path_join (path' ds0) (ground_truth_filename' ds0)) of
        None \<Rightarrow> Inl (Exit (- 1))
      | Some entries \<Rightarrow>
          (case data_at (data' ds0) 0 of
             Inl e \<Rightarrow> Inl e
           | Inr f \<Rightarrow>
               (case deref (image' f) of
                  Inl e \<Rightarrow> Inl e
                | Inr img \<Rightarrow> attach_loop lib (read_time_stamp lib (getline entries))
                    (read_state lib (getline entries)) ds0 0)))"
    unfolding Load_def Let_def bag ds0_def view_def by simp
  from assms L obtain entries where entries_open:
    "ifstream_open fs (path_join (path' ds0) (ground_truth_filename' ds0)) = Some entries"
    by (cases "ifstream_open fs (path_join (path' ds0) (ground_truth_filename' ds0))") simp_all
  then have node:
    "nodes fs (path_join (path' ds) (ground_truth_filename' ds)) = Some (TextFile entries)"
    by (simp add: ifstream_open_def ds0 split: option.splits Node.splits)
  from assms L entries_open have ne: "data' ds0 \<noteq> []"
    by (auto simp: data_at_def)
  from assms L entries_open ne have A: "attach_loop lib (read_time_stamp lib (getline entries))
                    (read_state lib (getline entries)) ds0 0 = Inr ds1"
    by (auto simp: data_at_def deref_def split: option.splits)
  have "read_time_stamp lib (getline entries) \<noteq> None"
  proof
    assume "read_time_stamp lib (getline entries) = None"
    with A have "attach_loop lib None (read_state lib (getline entries)) ds0 0 = Inr ds1"
      by simp
    moreover have "0 < length (data' ds0)"
      using ne by simp
    ultimately show False
      using attach_loop_uninitialised by blast
  qed
  then obtain t rest where line: "getline entries = t # rest"
    by (cases "getline entries") (simp_all add: read_time_stamp_def)
  with A have A': "attach_loop lib (Some (parse_double lib t)) (map (parse_double lib) rest) ds0 0 = Inr ds1"
    by (simp add: read_time_stamp_def read_state_tl)
  have imgs: "list_all (\<lambda>f. image' f \<noteq> None) (data' ds0)"
    using A' attach_loop_null[of 0 ds0 lib]
    by (cases "list_all (\<lambda>f. image' f \<noteq> None) (data' ds0)") auto
  from A' attach_loop_images[of 0 ds0 lib] imgs
  have "ds1 = ds0\<lparr> data' := map (attach lib (admissible_delta_time' ds0)
       (parse_double lib t) (map (parse_double lib) rest)) (data' ds0) \<rparr>"
    by simp
  with new node ne imgs line show ?thesis
    by (intro exI[of _ new] exI[of _ entries] exI[of _ t] exI[of _ rest]) (simp add: ds0)
qed

lemma Store_dataset: "Store ds fs = Inr (ds1, fs1) \<Longrightarrow> ds1 = ds"
  by (auto simp: Store_def split: if_splits sum.splits option.splits)

lemma reachable_settings:
  assumes "reachable lib ds"
  shows "image_topic' ds = ''XTION/depth/image''
    \<and> info_topic' ds = ''XTION/depth/camera_info''
    \<and> observations_filename' ds = ''measurements.bag''
    \<and> ground_truth_filename' ds = ''ground_truth.txt''
    \<and> admissible_delta_time' ds = double_0_02"
  using assms
proof (induction rule: reachable.induct)
  case (constructed path)
  show ?case by (simp add: TrackingDataset_new_def)
next
  case (added ds img info ground_truth)
  then show ?case by (simp add: AddFrame_def)
next
  case (added2 ds img info)
  then show ?case by (simp add: AddFrame2_def)
next
  case (loaded ds fs ds1)
  from Load_result[OF loaded.hyps(2)] obtain d where "ds1 = ds\<lparr> data' := d \<rparr>" by blast
  with loaded.IH show ?case by simp
next
  case (stored ds fs ds1 fs1)
  with Store_dataset show ?case by blast
qed

lemma write_bag_loop_all:
  "write_bag_loop ds 0 [] =
     (if list_all complete (data' ds)
      then Inr (concat (map (frame_messages ds) (data' ds))) else Inl NullPointer)"
  using write_bag_loop_complete[of 0 ds "[]"] write_bag_loop_incomplete[of 0 ds "[]"]
  by simp

lemma write_ground_truth_loop_all:
  "list_all complete (data' ds) \<Longrightarrow>
   write_ground_truth_loop ds 0 [] =
     Inr (map ground_truth_line (filter (\<lambda>f. length (ground_truth' f) \<noteq> 0) (data' ds)))"
  using write_ground_truth_loop_complete[of 0 ds "[]"] by simp

lemma reachable_paths:
  assumes "reachable lib ds"
  shows "path_join (path' ds) (observations_filename' ds) \<noteq> path' ds"
    and "path_join (path' ds) (ground_truth_filename' ds) \<noteq> path' ds"
    and "path_join (path' ds) (observations_filename' ds) \<noteq>
         path_join (path' ds) (ground_truth_filename' ds)"
  using reachable_settings[OF assms]
  by (simp_all add: path_join_neq_self path_join_inject)

section \<open>Properties of storing\<close>

text \<open>
  C9. \<^verbatim>\<open>Store\<close> never overwrites a session. When the bag file or the ground-truth
  text file is on the file system at the dataset's path, \<^verbatim>\<open>Store\<close> returns with the
  file system it was given, no node created, changed or removed, and with the dataset
  it was given.
\<close>

theorem Store_never_overwrites:
  assumes "nodes fs (path_join (path' ds) (observations_filename' ds)) \<noteq> None
         \<or> nodes fs (path_join (path' ds) (ground_truth_filename' ds)) \<noteq> None"
  shows "Store ds fs = Inr (ds, fs)"
  using assms by (simp add: Store_def exists_path_def)

lemma recorded_session_reachable: "reachable lib recorded_session"
  unfolding recorded_session_def by (intro reachable.intros)

theorem Store_never_overwrites_witness:
  "nodes disk_with_log (path_join (path' recorded_session)
       (ground_truth_filename' recorded_session)) = Some (TextFile [[100, 1, 2, 3]])
   \<and> Store recorded_session disk_with_log = Inr (recorded_session, disk_with_log)"
  using Store_never_overwrites[of disk_with_log recorded_session]
  by (simp add: disk_with_log_def recorded_session_def AddFrame_def AddFrame2_def
      TrackingDataset_new_def path_join_def)

text \<open>
  C10. What \<^verbatim>\<open>Store\<close> writes when neither file is there, for a dataset a program
  can have (its two file names are then the constructor's, and differ). It returns
  exactly when every frame has an image and a camera info and the operating system lets
  it make the directory (unless it is there) and the two files. The bag file then holds, frame after
  frame in index order, the image under the image topic and the camera info under the
  info topic, each with its own stamp; the text file holds one line, the image's stamp
  and the ground truth, for each frame whose ground truth has rows, again in index
  order, and none for the other frames. Nothing else on the file system changes, nor
  does the dataset.
\<close>

theorem Store_writes_frames_in_index_order:
  assumes "reachable lib ds"
    and "nodes fs (path_join (path' ds) (observations_filename' ds)) = None"
    and "nodes fs (path_join (path' ds) (ground_truth_filename' ds)) = None"
  shows "Store ds fs = Inr (ds1, fs1) \<longleftrightarrow>
      list_all complete (data' ds)
    \<and> (nodes fs (path' ds) = Some Directory
       \<or> nodes fs (path' ds) = None \<and> permits fs (path' ds))
    \<and> permits fs (path_join (path' ds) (observations_filename' ds))
    \<and> permits fs (path_join (path' ds) (ground_truth_filename' ds))
    \<and> ds1 = ds
    \<and> fs1 = fs\<lparr> nodes := (nodes fs)
        (path' ds \<mapsto> Directory,
         path_join (path' ds) (observations_filename' ds) \<mapsto>
           BagFile (concat (map (frame_messages ds) (data' ds))),
         path_join (path' ds) (ground_truth_filename' ds) \<mapsto>
           TextFile (map ground_truth_line
             (filter (\<lambda>f. length (ground_truth' f) \<noteq> 0) (data' ds)))) \<rparr>"
proof -
  let ?P = "path' ds"
  note ne = reachable_paths[OF assms(1)]
  note defs = Store_def exists_path_def create_directory_def bag_open_write_def bag_close_def
    ofstream_open_def ofstream_close_def write_bag_loop_all write_ground_truth_loop_all
  consider (dir) "nodes fs ?P = Some Directory"
    | (other) n where "nodes fs ?P = Some n" "n \<noteq> Directory"
    | (none) "nodes fs ?P = None"
    by (cases "nodes fs ?P") auto
  then show ?thesis
  proof cases
    case dir
    then have "(nodes fs)(?P \<mapsto> Directory) = nodes fs"
      by (simp add: map_upd_triv)
    with dir ne assms(2,3) show ?thesis
      by (auto simp: defs)
  next
    case other
    with ne assms(2,3) show ?thesis
      by (cases n) (auto simp: defs)
  next
    case none
    with ne assms(2,3) show ?thesis
      by (auto simp: defs)
  qed
qed

theorem Store_writes_frames_in_index_order_witness:
  "Store recorded_session empty_disk =
     Inr (recorded_session,
       \<lparr> nodes =
           [''session'' \<mapsto> Directory,
            ''session/measurements.bag'' \<mapsto> BagFile
              [\<lparr> getTopic = ''XTION/depth/image'', getTime = \<lparr> sec = 100, nsec = 0 \<rparr>,
                 payload = ImageMsg (depth_image 100 0) \<rparr>,
               \<lparr> getTopic = ''XTION/depth/camera_info'', getTime = \<lparr> sec = 100, nsec = 0 \<rparr>,
                 payload = InfoMsg (camera_info 100 0) \<rparr>,
               \<lparr> getTopic = ''XTION/depth/image'', getTime = \<lparr> sec = 101, nsec = 0 \<rparr>,
                 payload = ImageMsg (depth_image 101 0) \<rparr>,
               \<lparr> getTopic = ''XTION/depth/camera_info'', getTime = \<lparr> sec = 101, nsec = 0 \<rparr>,
                 payload = InfoMsg (camera_info 101 0) \<rparr>,
               \<lparr> getTopic = ''XTION/depth/image'',
                 getTime = \<lparr> sec = 102, nsec = 500000000 \<rparr>,
                 payload = ImageMsg (depth_image 102 500000000) \<rparr>,
               \<lparr> getTopic = ''XTION/depth/camera_info'',
                 getTime = \<lparr> sec = 102, nsec = 500000000 \<rparr>,
                 payload = InfoMsg (camera_info 102 500000000) \<rparr>],
            ''session/ground_truth.txt'' \<mapsto> TextFile [[100, 1, 2, 3], [205 / 2, 4, 5]]],
         permits = (\<lambda>p. True) \<rparr>)"
proof -
  have r: "reachable pairing_library recorded_session"
    by (rule recorded_session_reachable)
  have p: "path' recorded_session = ''session''"
      "observations_filename' recorded_session = ''measurements.bag''"
      "ground_truth_filename' recorded_session = ''ground_truth.txt''"
      "image_topic' recorded_session = ''XTION/depth/image''"
      "info_topic' recorded_session = ''XTION/depth/camera_info''"
    by (simp_all add: recorded_session_def AddFrame_def AddFrame2_def TrackingDataset_new_def)
  have d: "data' recorded_session =
     [\<lparr> image' = Some (depth_image 100 0), info' = Some (camera_info 100 0),
        ground_truth' = [1, 2, 3] \<rparr>,
      \<lparr> image' = Some (depth_image 101 0), info' = Some (camera_info 101 0),
        ground_truth' = [] \<rparr>,
      \<lparr> image' = Some (depth_image 102 500000000), info' = Some (camera_info 102 500000000),
        ground_truth' = [4, 5] \<rparr>]"
    by (simp add: recorded_session_def AddFrame_def AddFrame2_def TrackingDataset_new_def
        default_ground_truth_def)
  have n: "nodes empty_disk (path_join (path' recorded_session)
             (observations_filename' recorded_session)) = None"
     "nodes empty_disk (path_join (path' recorded_session)
             (ground_truth_filename' recorded_session)) = None"
    by (simp_all add: empty_disk_def)
  show ?thesis
    unfolding Store_writes_frames_in_index_order[OF r n]
    by (simp add: p d path_join_def empty_disk_def complete_def frame_messages_def
        ground_truth_line_def printed_stamp_def depth_image_def camera_info_def)
qed

section \<open>Properties of loading\<close>

subsection \<open>The arithmetic of the examples\<close>

lemma binade_eq:
  "2 powi e \<le> x \<Longrightarrow> x < 2 powi (e + 1) \<Longrightarrow> nat \<bar>e\<bar> \<le> fuel \<Longrightarrow> binade fuel x = e"
proof (induction fuel arbitrary: x e)
  case 0
  then show ?case by simp
next
  case (Suc fuel)
  consider (pos) "0 < e" | (zero) "e = 0" | (neg) "e < 0" by linarith
  then show ?case
  proof cases
    case zero
    with Suc.prems show ?thesis by simp
  next
    case pos
    then have "(2::real) powi 1 \<le> 2 powi e"
      by (intro power_int_increasing) simp_all
    with Suc.prems(1) have x2: "2 \<le> x" by simp
    have "(2::real) powi e = 2 powi (e - 1) * 2"
      by (simp add: power_int_diff)
    with Suc.prems have "2 powi (e - 1) \<le> x / 2" "x / 2 < 2 powi (e - 1 + 1)"
      by (simp_all add: power_int_add)
    moreover have "nat \<bar>e - 1\<bar> \<le> fuel" using pos Suc.prems(3) by simp
    ultimately have "binade fuel (x / 2) = e - 1" by (rule Suc.IH)
    with x2 show ?thesis by simp
  next
    case neg
    then have "(2::real) powi (e + 1) \<le> 2 powi 0"
      by (intro power_int_increasing) simp_all
    with Suc.prems(2) have x1: "x < 1" by simp
    have "(2::real) powi (e + 1 + 1) = 2 powi (e + 1) * 2" "(2::real) powi (e + 1) = 2 powi e * 2"
      by (simp_all add: power_int_add)
    with Suc.prems have "2 powi (e + 1) \<le> x * 2" "x * 2 < 2 powi (e + 1 + 1)"
      by simp_all
    moreover have "nat \<bar>e + 1\<bar> \<le> fuel" using neg Suc.prems(3) by simp
    ultimately have "binade fuel (x * 2) = e + 1" by (rule Suc.IH)
    with x1 show ?thesis by simp
  qed
qed

lemma round_binary64_in_binade:
  assumes "2 powi e \<le> \<bar>x\<bar>" and "\<bar>x\<bar> < 2 powi (e + 1)" and "\<bar>e\<bar> \<le> 1022"
  shows "round_binary64 x = 2 powi (e - 52) * of_int (round_half_even (x / 2 powi (e - 52)))"
proof -
  have "binade 1100 \<bar>x\<bar> = e"
    using assms by (intro binade_eq) simp_all
  moreover have "x \<noteq> 0"
  proof
    assume "x = 0"
    with assms(1) have "(2::real) powi e \<le> 0" by simp
    moreover have "0 < (2::real) powi e" by simp
    ultimately show False by linarith
  qed
  ultimately show ?thesis
    by (simp add: round_binary64_def Let_def)
qed

lemma literals_binary64:
  "round_binary64 (2 / 100) = double_0_02"
  "round_binary64 (1 / 10 ^ 9) = double_1e_9"
proof -
  show "round_binary64 (2 / 100) = double_0_02"
    by (subst round_binary64_in_binade[of "- 6"])
       (simp_all add: round_half_even_def double_0_02_def)
  show "round_binary64 (1 / 10 ^ 9) = double_1e_9"
    by (subst round_binary64_in_binade[of "- 30"])
       (simp_all add: round_half_even_def double_1e_9_def)
qed

lemma parse_binary64:
  "round_binary64 200 = 200" "round_binary64 1 = 1" "round_binary64 2 = 2"
  "round_binary64 3 = 3"
proof -
  show "round_binary64 200 = 200"
    by (subst round_binary64_in_binade[of 7]) (simp_all add: round_half_even_def)
  show "round_binary64 1 = 1"
    by (subst round_binary64_in_binade[of 0]) (simp_all add: round_half_even_def)
  show "round_binary64 2 = 2"
    by (subst round_binary64_in_binade[of 1]) (simp_all add: round_half_even_def)
  show "round_binary64 3 = 3"
    by (subst round_binary64_in_binade[of 1]) (simp_all add: round_half_even_def)
qed

lemma toSec_binary64:
  "binary64_toSec \<lparr> sec = 200, nsec = 10000000 \<rparr> = 879653282685911 / 2 ^ 42"
  "binary64_toSec \<lparr> sec = 200, nsec = 20000000 \<rparr> = 7037578105208177 / 2 ^ 45"
  "binary64_toSec \<lparr> sec = 300, nsec = 0 \<rparr> = 300"
proof -
  have p1: "round_binary64 (double_1e_9 * 10000000) = 5764607523034235 / 2 ^ 59"
    unfolding double_1e_9_def
    by (subst round_binary64_in_binade[of "- 7"]) (simp_all add: round_half_even_def)
  have s1: "round_binary64 (200 + 5764607523034235 / 2 ^ 59) = 879653282685911 / 2 ^ 42"
    by (subst round_binary64_in_binade[of 7]) (simp_all add: round_half_even_def)
  show "binary64_toSec \<lparr> sec = 200, nsec = 10000000 \<rparr> = 879653282685911 / 2 ^ 42"
    by (simp only: binary64_toSec_def Time.select_convs of_nat_numeral p1 s1)
  have p2: "round_binary64 (double_1e_9 * 20000000) = 5764607523034235 / 2 ^ 58"
    unfolding double_1e_9_def
    by (subst round_binary64_in_binade[of "- 6"]) (simp_all add: round_half_even_def)
  have s2: "round_binary64 (200 + 5764607523034235 / 2 ^ 58) = 7037578105208177 / 2 ^ 45"
    by (subst round_binary64_in_binade[of 7]) (simp_all add: round_half_even_def)
  show "binary64_toSec \<lparr> sec = 200, nsec = 20000000 \<rparr> = 7037578105208177 / 2 ^ 45"
    by (simp only: binary64_toSec_def Time.select_convs of_nat_numeral p2 s2)
  have p3: "round_binary64 0 = 0"
    by (simp add: round_binary64_def)
  have s3: "round_binary64 300 = 300"
    by (subst round_binary64_in_binade[of 8]) (simp_all add: round_half_even_def)
  show "binary64_toSec \<lparr> sec = 300, nsec = 0 \<rparr> = 300"
    by (simp only: binary64_toSec_def Time.select_convs of_nat_numeral of_nat_0
        mult_zero_right p3 add_0_right s3)
qed

lemma minus_binary64:
  "round_binary64 (879653282685911 / 2 ^ 42 - 200) = 43980465111 / 2 ^ 42"
  "round_binary64 (7037578105208177 / 2 ^ 45 - 200) = 703687441777 / 2 ^ 45"
  "round_binary64 (300 - 200) = 100"
proof -
  show "round_binary64 (879653282685911 / 2 ^ 42 - 200) = 43980465111 / 2 ^ 42"
    by (subst round_binary64_in_binade[of "- 7"]) (simp_all add: round_half_even_def)
  show "round_binary64 (7037578105208177 / 2 ^ 45 - 200) = 703687441777 / 2 ^ 45"
    by (subst round_binary64_in_binade[of "- 6"]) (simp_all add: round_half_even_def)
  show "round_binary64 (300 - 200) = 100"
    by (subst round_binary64_in_binade[of 6]) (simp_all add: round_half_even_def)
qed

lemma pairing_library_arithmetic:
  "toSec pairing_library = binary64_toSec"
  "double_minus pairing_library a b = round_binary64 (a - b)"
  "parse_double pairing_library = round_binary64"
  by (simp_all add: pairing_library_def)

text \<open>
  The comparisons of the examples. The frame stamped 200.02 s is not within the delta of
  200 s: the double for 200.02 is above 200.02, and so is its difference with 200 above
  the double for 0.02.
\<close>

lemma compare_binary64:
  "\<bar>double_minus pairing_library (toSec pairing_library \<lparr> sec = 200, nsec = 10000000 \<rparr>) 200\<bar>
     \<le> double_0_02"
  "\<not> \<bar>double_minus pairing_library (toSec pairing_library \<lparr> sec = 200, nsec = 20000000 \<rparr>) 200\<bar>
     \<le> double_0_02"
  "\<not> \<bar>double_minus pairing_library (toSec pairing_library \<lparr> sec = 300, nsec = 0 \<rparr>) 200\<bar>
     \<le> double_0_02"
proof -
  show "\<bar>double_minus pairing_library
      (toSec pairing_library \<lparr> sec = 200, nsec = 10000000 \<rparr>) 200\<bar> \<le> double_0_02"
    unfolding pairing_library_arithmetic toSec_binary64 minus_binary64
    by (simp add: double_0_02_def)
  show "\<not> \<bar>double_minus pairing_library
      (toSec pairing_library \<lparr> sec = 200, nsec = 20000000 \<rparr>) 200\<bar> \<le> double_0_02"
    unfolding pairing_library_arithmetic toSec_binary64 minus_binary64
    by (simp add: double_0_02_def)
  show "\<not> \<bar>double_minus pairing_library
      (toSec pairing_library \<lparr> sec = 300, nsec = 0 \<rparr>) 200\<bar> \<le> double_0_02"
    unfolding pairing_library_arithmetic toSec_binary64 minus_binary64
    by (simp add: double_0_02_def)
qed

subsection \<open>Loading the recording of the examples\<close>

lemma stamps:
  "stamp (header (depth_image s ns)) = \<lparr> sec = s, nsec = ns \<rparr>"
  "stamp (info_header (camera_info s ns)) = \<lparr> sec = s, nsec = ns \<rparr>"
  by (simp_all add: depth_image_def camera_info_def)

lemma AddFrame2_settings:
  "path' (AddFrame2 ds a b) = path' ds"
  "image_topic' (AddFrame2 ds a b) = image_topic' ds"
  "info_topic' (AddFrame2 ds a b) = info_topic' ds"
  "observations_filename' (AddFrame2 ds a b) = observations_filename' ds"
  "ground_truth_filename' (AddFrame2 ds a b) = ground_truth_filename' ds"
  "admissible_delta_time' (AddFrame2 ds a b) = admissible_delta_time' ds"
  by (simp_all add: AddFrame2_def)

lemma new_settings:
  "path' (TrackingDataset_new p) = p"
  "image_topic' (TrackingDataset_new p) = ''XTION/depth/image''"
  "info_topic' (TrackingDataset_new p) = ''XTION/depth/camera_info''"
  "observations_filename' (TrackingDataset_new p) = ''measurements.bag''"
  "ground_truth_filename' (TrackingDataset_new p) = ''ground_truth.txt''"
  "admissible_delta_time' (TrackingDataset_new p) = double_0_02"
  "data' (TrackingDataset_new p) = []"
  by (simp_all add: TrackingDataset_new_def)

lemma annotated_settings:
  "path' annotated_session = ''session''"
  "image_topic' annotated_session = ''XTION/depth/image''"
  "info_topic' annotated_session = ''XTION/depth/camera_info''"
  "observations_filename' annotated_session = ''measurements.bag''"
  "ground_truth_filename' annotated_session = ''ground_truth.txt''"
  "admissible_delta_time' annotated_session = double_0_02"
  by (simp_all add: annotated_session_def AddFrame_def new_settings)

lemma annotated_reachable: "reachable lib annotated_session"
  unfolding annotated_session_def by (intro reachable.intros)

lemma loaded_data:
  "data' loaded_session =
     [\<lparr> image' = Some (depth_image 300 0), info' = Some (camera_info 300 0),
        ground_truth' = [7, 8, 9] \<rparr>,
      \<lparr> image' = Some (depth_image 200 10000000), info' = Some (camera_info 200 10000000),
        ground_truth' = [1, 2, 3] \<rparr>,
      \<lparr> image' = Some (depth_image 200 20000000), info' = Some (camera_info 200 20000000),
        ground_truth' = [] \<rparr>]"
  by (simp add: loaded_session_def annotated_session_def AddFrame_def new_settings)

lemma Load_recorded_disk:
  "Load pairing_library annotated_session recorded_disk = Inr loaded_session"
proof -
  let ?L = pairing_library
  let ?ds = annotated_session
  let ?i1 = "depth_image 200 10000000" and ?c1 = "camera_info 200 10000000"
  let ?i2 = "depth_image 200 20000000" and ?c2 = "camera_info 200 20000000"
  let ?m1 = "\<lparr> getTopic = ''XTION/depth/image'', getTime = \<lparr> sec = 200, nsec = 10000000 \<rparr>,
               payload = ImageMsg ?i1 \<rparr>"
  let ?m2 = "\<lparr> getTopic = ''XTION/depth/camera_info'',
               getTime = \<lparr> sec = 200, nsec = 10000000 \<rparr>, payload = InfoMsg ?c1 \<rparr>"
  let ?m3 = "\<lparr> getTopic = ''/tf'', getTime = \<lparr> sec = 200, nsec = 5 \<rparr>, payload = OtherMsg \<rparr>"
  let ?m4 = "\<lparr> getTopic = ''/XTION/depth/image'',
               getTime = \<lparr> sec = 200, nsec = 20000000 \<rparr>, payload = ImageMsg ?i2 \<rparr>"
  let ?m5 = "\<lparr> getTopic = ''/XTION/depth/camera_info'',
               getTime = \<lparr> sec = 200, nsec = 20000000 \<rparr>, payload = InfoMsg ?c2 \<rparr>"
  let ?ds1 = "AddFrame2 ?ds (Some ?i1) (Some ?c1)"
  let ?ds2 = "AddFrame2 ?ds1 (Some ?i2) (Some ?c2)"
  note ev = load_message_def newMessage_def pairing_library_def instantiate_Image_def
    instantiate_CameraInfo_def List.map_filter_def annotated_settings AddFrame2_settings stamps
  have bag: "bag_open_read recorded_disk
      (path_join (path' ?ds) (observations_filename' ?ds)) = Inr [?m1, ?m2, ?m3, ?m4, ?m5]"
    by (simp add: bag_open_read_def recorded_disk_def path_join_def annotated_settings)
  have view: "View ?L [?m1, ?m2, ?m3, ?m4, ?m5]
      [image_topic' ?ds, info_topic' ?ds, ''/'' @ image_topic' ?ds, ''/'' @ info_topic' ?ds] =
      [?m1, ?m2, ?m4, ?m5]"
    by (simp add: pairing_library_def annotated_settings)
  have s1: "load_message ?L ?m1 (?ds, []) = (?ds, [ImageEvent ?i1])"
    by (simp add: ev)
  have s2: "load_message ?L ?m2 (?ds, [ImageEvent ?i1]) =
      (?ds1, [ImageEvent ?i1, InfoEvent ?c1])"
    by (simp add: ev)
  have s4: "load_message ?L ?m4 (?ds1, [ImageEvent ?i1, InfoEvent ?c1]) =
      (?ds1, [ImageEvent ?i1, InfoEvent ?c1, ImageEvent ?i2])"
    by (simp add: ev)
  have s5: "load_message ?L ?m5 (?ds1, [ImageEvent ?i1, InfoEvent ?c1, ImageEvent ?i2]) =
      (?ds2, [ImageEvent ?i1, InfoEvent ?c1, ImageEvent ?i2, InfoEvent ?c2])"
    by (simp add: ev)
  have msgs: "fst (load_messages ?L [?m1, ?m2, ?m4, ?m5] (?ds, [])) = ?ds2"
    by (simp only: load_messages.simps s1 s2 s4 s5 fst_conv)
  have log: "ifstream_open recorded_disk
      (path_join (path' ?ds2) (ground_truth_filename' ?ds2)) =
      Some [[200, 1, 2, 3], [201, 4, 5, 6]]"
    by (simp add: ifstream_open_def recorded_disk_def path_join_def annotated_settings
        AddFrame2_settings)
  have d2: "data' ?ds2 =
      [\<lparr> image' = Some (depth_image 300 0), info' = Some (camera_info 300 0),
         ground_truth' = [7, 8, 9] \<rparr>,
       \<lparr> image' = Some ?i1, info' = Some ?c1, ground_truth' = [] \<rparr>,
       \<lparr> image' = Some ?i2, info' = Some ?c2, ground_truth' = [] \<rparr>]"
    by (simp add: AddFrame2_def annotated_session_def AddFrame_def new_settings
        default_ground_truth_def)
  have line: "read_time_stamp ?L (getline [[200, 1, 2, 3], [201, 4, 5, 6]]) = Some 200"
      "read_state ?L (getline [[200, 1, 2, 3], [201, 4, 5, 6]]) = [1, 2, 3]"
    by (simp_all add: getline_def read_time_stamp_def read_state_tl
        pairing_library_arithmetic parse_binary64)
  have a: "attach ?L double_0_02 200 [1, 2, 3]
        \<lparr> image' = Some (depth_image 300 0), info' = Some (camera_info 300 0),
          ground_truth' = [7, 8, 9] \<rparr> =
        \<lparr> image' = Some (depth_image 300 0), info' = Some (camera_info 300 0),
          ground_truth' = [7, 8, 9] \<rparr>"
      "attach ?L double_0_02 200 [1, 2, 3]
        \<lparr> image' = Some ?i1, info' = Some ?c1, ground_truth' = [] \<rparr> =
        \<lparr> image' = Some ?i1, info' = Some ?c1, ground_truth' = [1, 2, 3] \<rparr>"
      "attach ?L double_0_02 200 [1, 2, 3]
        \<lparr> image' = Some ?i2, info' = Some ?c2, ground_truth' = [] \<rparr> =
        \<lparr> image' = Some ?i2, info' = Some ?c2, ground_truth' = [] \<rparr>"
    by (simp_all add: attach_def stamps compare_binary64)
  have att: "attach_loop ?L (Some 200) [1, 2, 3] ?ds2 0 = Inr loaded_session"
  proof -
    have "attach_loop ?L (Some 200) [1, 2, 3] ?ds2 0 =
        Inr (?ds2\<lparr> data' := map (attach ?L double_0_02 200 [1, 2, 3]) (data' ?ds2) \<rparr>)"
      by (subst attach_loop_images) (simp_all add: d2 AddFrame2_settings annotated_settings)
    also have "\<dots> = Inr loaded_session"
      unfolding d2 list.map a
      by (simp add: loaded_session_def annotated_session_def AddFrame_def AddFrame2_def
          new_settings)
    finally show ?thesis .
  qed
  show ?thesis
    apply (simp only: Load_def Let_def bag sum.case view msgs log option.case line)
    apply (simp add: d2 data_at_def deref_def att)
    done
qed

text \<open>On an empty log nothing is read into the time stamp, and the comparison reads it.\<close>

lemma Load_blank_log:
  "Load pairing_library annotated_session blank_log_disk = Inl UninitialisedRead"
proof -
  have bag: "bag_open_read blank_log_disk
      (path_join (path' annotated_session) (observations_filename' annotated_session)) = Inr []"
    by (simp add: bag_open_read_def blank_log_disk_def path_join_def annotated_settings)
  have view: "View pairing_library [] topics = []" for topics
    by (simp add: pairing_library_def)
  have log: "ifstream_open blank_log_disk
      (path_join (path' annotated_session) (ground_truth_filename' annotated_session)) = Some []"
    by (simp add: ifstream_open_def blank_log_disk_def path_join_def annotated_settings)
  have d: "data' annotated_session =
      [\<lparr> image' = Some (depth_image 300 0), info' = Some (camera_info 300 0),
         ground_truth' = [7, 8, 9] \<rparr>]"
    by (simp add: annotated_session_def AddFrame_def new_settings)
  have att: "attach_loop pairing_library None state annotated_session 0 = Inl UninitialisedRead"
    for state
    by (subst attach_loop.simps) (simp add: d deref_def)
  show ?thesis
    apply (simp only: Load_def Let_def bag sum.case view load_messages.simps fst_conv log
        option.case)
    apply (simp add: d data_at_def deref_def getline_def read_time_stamp_def att)
    done
qed

subsection \<open>What loading attaches\<close>

text \<open>
  C2 (as amended). Every dataset a program can have has the admissible time delta of
  the constructor, the double for 0.02 seconds, and \<^verbatim>\<open>Load\<close> leaves it so. When
  \<^verbatim>\<open>Load\<close> returns, the ground-truth log was a text file whose first line has a
  number: the time stamp is the double read from it and the state the doubles read from
  the numbers after it. No frame is removed and no image changed. Every frame has an
  image, and its ground truth is the state read when the difference, as the code
  computes it in doubles, of \<^verbatim>\<open>toSec()\<close> of the image's stamp and the time stamp is
  in magnitude at most the delta; otherwise it is the ground truth the frame had before
  the load if it was in the dataset then, and the empty vector if it was read from the
  bag. This holds whatever the double arithmetic of the platform is.
\<close>

theorem Load_attaches_ground_truth:
  assumes "reachable lib ds" and "Load lib ds fs = Inr ds1"
  shows "admissible_delta_time' ds = double_0_02 \<and> admissible_delta_time' ds1 = double_0_02
    \<and> (\<exists>entries t rest.
          nodes fs (path_join (path' ds) ''ground_truth.txt'') = Some (TextFile entries)
        \<and> getline entries = t # rest
        \<and> length (data' ds) \<le> length (data' ds1)
        \<and> (\<forall>i < length (data' ds1). \<exists>img.
              image' (data' ds1 ! i) = Some img
            \<and> (i < length (data' ds) \<longrightarrow> image' (data' ds ! i) = Some img)
            \<and> ground_truth' (data' ds1 ! i) =
                (if \<bar>double_minus lib (toSec lib (stamp (header img))) (parse_double lib t)\<bar>
                      \<le> double_0_02
                 then map (parse_double lib) rest
                 else if i < length (data' ds) then ground_truth' (data' ds ! i)
                 else [])))"
proof -
  note set = reachable_settings[OF assms(1)]
  from Load_result[OF assms(2)] obtain new entries t rest where
    new: "list_all from_bag new"
    and node: "nodes fs (path_join (path' ds) (ground_truth_filename' ds)) = Some (TextFile entries)"
    and line: "getline entries = t # rest"
    and imgs: "list_all (\<lambda>f. image' f \<noteq> None) (data' ds @ new)"
    and ds1: "ds1 = ds\<lparr> data' := map (attach lib (admissible_delta_time' ds)
                 (parse_double lib t) (map (parse_double lib) rest))
               (data' ds @ new) \<rparr>"
    by blast
  let ?t = "parse_double lib t"
  let ?state = "map (parse_double lib) rest"
  let ?a = "attach lib double_0_02 ?t ?state"
  have d1: "data' ds1 = map ?a (data' ds @ new)"
    using ds1 set by simp
  have frame: "\<exists>img. image' (?a f) = Some img \<and> image' f = Some img
      \<and> ground_truth' (?a f) =
         (if \<bar>double_minus lib (toSec lib (stamp (header img))) ?t\<bar> \<le> double_0_02
          then ?state else ground_truth' f)"
    if "image' f \<noteq> None" for f
    using that by (auto simp: attach_def)
  have "\<exists>img. image' (data' ds1 ! i) = Some img
            \<and> (i < length (data' ds) \<longrightarrow> image' (data' ds ! i) = Some img)
            \<and> ground_truth' (data' ds1 ! i) =
                (if \<bar>double_minus lib (toSec lib (stamp (header img))) ?t\<bar> \<le> double_0_02
                 then ?state
                 else if i < length (data' ds) then ground_truth' (data' ds ! i)
                 else [])"
    if i: "i < length (data' ds1)" for i
  proof -
    let ?f = "(data' ds @ new) ! i"
    from i have il: "i < length (data' ds @ new)" by (simp add: d1)
    then have "image' ?f \<noteq> None"
      using imgs by (simp add: list_all_length)
    from frame[OF this] obtain img where img: "image' (?a ?f) = Some img" "image' ?f = Some img"
      "ground_truth' (?a ?f) =
         (if \<bar>double_minus lib (toSec lib (stamp (header img))) ?t\<bar> \<le> double_0_02
          then ?state else ground_truth' ?f)"
      by blast
    have n: "data' ds1 ! i = ?a ?f"
      using il by (simp add: d1 del: map_append)
    have old: "?f = data' ds ! i" if "i < length (data' ds)"
      using that by (simp add: nth_append)
    have fresh: "ground_truth' ?f = []" if "\<not> i < length (data' ds)"
    proof -
      from that il have "?f = new ! (i - length (data' ds))" "i - length (data' ds) < length new"
        by (simp_all add: nth_append)
      with new show ?thesis by (simp add: list_all_length from_bag_def)
    qed
    show ?thesis
      using img old fresh unfolding n by (intro exI[of _ img]) auto
  qed
  moreover have "length (data' ds) \<le> length (data' ds1)"
    by (simp add: d1)
  moreover have "admissible_delta_time' ds1 = double_0_02"
    using ds1 set by simp
  ultimately show ?thesis
    using node line set by auto
qed

text \<open>
  The recording of the examples, in binary64: the first entry of the log is attached to
  the frame 0.01 seconds from it; the log's second entry is not read.
\<close>

theorem Load_attaches_ground_truth_witness:
  "Load pairing_library annotated_session recorded_disk = Inr loaded_session
   \<and> length (data' loaded_session) = 3
   \<and> ground_truth' (data' loaded_session ! 0) = [7, 8, 9]
   \<and> ground_truth' (data' loaded_session ! 1) = [1, 2, 3]
   \<and> ground_truth' (data' loaded_session ! 2) = []"
proof -
  from Load_attaches_ground_truth[OF annotated_reachable Load_recorded_disk]
  obtain entries t rest where
    e: "nodes recorded_disk (path_join (path' annotated_session) ''ground_truth.txt'') =
          Some (TextFile entries)"
    and line: "getline entries = t # rest"
    and a: "\<forall>i < length (data' loaded_session). \<exists>img.
              image' (data' loaded_session ! i) = Some img
            \<and> (i < length (data' annotated_session) \<longrightarrow>
                 image' (data' annotated_session ! i) = Some img)
            \<and> ground_truth' (data' loaded_session ! i) =
                (if \<bar>double_minus pairing_library (toSec pairing_library (stamp (header img)))
                       (parse_double pairing_library t)\<bar> \<le> double_0_02
                 then map (parse_double pairing_library) rest
                 else if i < length (data' annotated_session)
                   then ground_truth' (data' annotated_session ! i)
                 else [])"
    by blast
  from e have "entries = [[200, 1, 2, 3], [201, 4, 5, 6]]"
    by (simp add: recorded_disk_def path_join_def annotated_settings)
  with line have t: "t = 200" and rest: "rest = [1, 2, 3]"
    by (simp_all add: getline_def)
  have p: "parse_double pairing_library 200 = 200" "parse_double pairing_library 1 = 1"
    "parse_double pairing_library 2 = 2" "parse_double pairing_library 3 = 3"
    by (simp_all add: pairing_library_arithmetic parse_binary64)
  have old: "data' annotated_session =
      [\<lparr> image' = Some (depth_image 300 0), info' = Some (camera_info 300 0),
         ground_truth' = [7, 8, 9] \<rparr>]"
    by (simp add: annotated_session_def AddFrame_def new_settings)
  have l: "length (data' loaded_session) = 3"
    and i0: "image' (data' loaded_session ! 0) = Some (depth_image 300 0)"
    and i1: "image' (data' loaded_session ! 1) = Some (depth_image 200 10000000)"
    and i2: "image' (data' loaded_session ! 2) = Some (depth_image 200 20000000)"
    by (simp_all add: loaded_data)
  from a[rule_format, of 0] l i0
  have g0: "ground_truth' (data' loaded_session ! 0) = [7, 8, 9]"
    by (simp add: t rest p stamps compare_binary64 old)
  from a[rule_format, of 1] l i1
  have g1: "ground_truth' (data' loaded_session ! 1) = [1, 2, 3]"
    by (simp add: t rest p stamps compare_binary64 old)
  from a[rule_format, of 2] l i2
  have g2: "ground_truth' (data' loaded_session ! 2) = []"
    by (simp add: t rest p stamps compare_binary64 old)
  from Load_recorded_disk l g0 g1 g2 show ?thesis
    by simp
qed

text \<open>
  The same load, against the claim as first stated. The frame that was in the dataset
  before the load, 100 seconds from the log entry, does not keep an empty vector: it
  has the ground truth it came with. The frame stamped 200.02 s, whose stamp differs
  from the entry's 200 s by 0.02 seconds and so by at most 0.02 seconds, is not given
  the state read, \<open>[1, 2, 3]\<close>: the doubles the code compares differ by more than the
  double for 0.02.
\<close>

theorem Load_keeps_ground_truth_and_compares_doubles:
  "reachable pairing_library annotated_session
   \<and> nodes recorded_disk (path_join (path' annotated_session) ''ground_truth.txt'') =
       Some (TextFile [[200, 1, 2, 3], [201, 4, 5, 6]])
   \<and> Load pairing_library annotated_session recorded_disk = Inr loaded_session
   \<and> image' (data' loaded_session ! 0) = Some (depth_image 300 0)
   \<and> \<not> \<bar>printed_stamp (stamp (header (depth_image 300 0))) - 200\<bar> \<le> 2 / 100
   \<and> ground_truth' (data' loaded_session ! 0) = [7, 8, 9]
   \<and> image' (data' loaded_session ! 1) = Some (depth_image 200 10000000)
   \<and> ground_truth' (data' loaded_session ! 1) = [1, 2, 3]
   \<and> image' (data' loaded_session ! 2) = Some (depth_image 200 20000000)
   \<and> \<bar>printed_stamp (stamp (header (depth_image 200 20000000))) - 200\<bar> \<le> 2 / 100
   \<and> ground_truth' (data' loaded_session ! 2) = []"
proof -
  have "nodes recorded_disk (path_join (path' annotated_session) ''ground_truth.txt'') =
       Some (TextFile [[200, 1, 2, 3], [201, 4, 5, 6]])"
    by (simp add: recorded_disk_def path_join_def annotated_settings)
  moreover have "\<not> \<bar>printed_stamp (stamp (header (depth_image 300 0))) - 200\<bar> \<le> 2 / 100"
      "\<bar>printed_stamp (stamp (header (depth_image 200 20000000))) - 200\<bar> \<le> 2 / 100"
    by (simp_all add: printed_stamp_def stamps)
  ultimately show ?thesis
    using annotated_reachable[of pairing_library] Load_recorded_disk
    by (simp add: loaded_data)
qed

section \<open>Properties of the builder\<close>


text \<open>
  C3. When one field of the bundle is out of its range and every other field is in
  range, \<^verbatim>\<open>build\<close> fails with \<open>InvalidParameterError\<close> carrying the name of that
  field, which is the name of no other field; a failure is not a tracker. This holds
  whatever the backend requested, the capability flag and the resources.
\<close>

theorem build_names_the_field_out_of_range:
  assumes "\<not> in_range f p" and "\<forall>g. g \<noteq> f \<longrightarrow> in_range g p"
  shows "build gpu_built resolve requested p camera_data =
           Inl (InvalidParameterError (field_name f))
    \<and> (\<forall>g. field_name g = field_name f \<longrightarrow> g = f)"
proof -
  have others: "in_range g p" if "g \<noteq> f" for g
    using assms(2) that by blast
  have "validate p = Inl (InvalidParameterError (field_name f))"
  proof (cases f)
    case Ut_alpha
    with assms(1) show ?thesis by (simp add: validate_def)
  next
    case Update_rate
    with assms(1) others[of Ut_alpha] show ?thesis by (simp add: validate_def)
  next
    case Bg_depth
    with assms(1) others[of Ut_alpha] others[of Update_rate] show ?thesis
      by (simp add: validate_def)
  next
    case Fg_noise_std
    with assms(1) others[of Ut_alpha] others[of Update_rate] others[of Bg_depth]
    show ?thesis by (simp add: validate_def)
  next
    case Bg_noise_std
    with assms(1) others[of Ut_alpha] others[of Update_rate] others[of Bg_depth]
      others[of Fg_noise_std]
    show ?thesis by (simp add: validate_def)
  next
    case Tail_weight
    with assms(1) others[of Ut_alpha] others[of Update_rate] others[of Bg_depth]
      others[of Fg_noise_std] others[of Bg_noise_std]
    show ?thesis by (simp add: validate_def)
  next
    case Uniform_tail
    with assms(1) others[of Ut_alpha] others[of Update_rate] others[of Bg_depth]
      others[of Fg_noise_std] others[of Bg_noise_std] others[of Tail_weight]
    show ?thesis by (simp add: validate_def)
  next
    case Sensors
    with assms(1) others[of Ut_alpha] others[of Update_rate] others[of Bg_depth]
      others[of Fg_noise_std] others[of Bg_noise_std] others[of Tail_weight]
      others[of Uniform_tail]
    show ?thesis by (simp add: validate_def)
  qed
  moreover have "g = f" if "field_name g = field_name f" for g
    using that by (cases g; cases f) simp_all
  ultimately show ?thesis
    by (simp add: build_def)
qed

text \<open>
  The bundles of the spec's examples: \<open>tail_weight = 1.5\<close>, \<open>update_rate = 0\<close> and
  \<open>sensors = 0\<close>, each in an otherwise valid bundle, which builds when left alone.
\<close>

theorem build_names_the_field_out_of_range_witness:
  "build False example_resources CPU
     (example_parameters\<lparr> observation := (observation example_parameters)\<lparr> tail_weight := 3 / 2 \<rparr> \<rparr>)
     () = Inl (InvalidParameterError ''observation.tail_weight'')
   \<and> build False example_resources CPU (example_parameters\<lparr> update_rate := 0 \<rparr>) () =
       Inl (InvalidParameterError ''update_rate'')
   \<and> build False example_resources CPU
       (example_parameters\<lparr> observation := (observation example_parameters)\<lparr> sensors := 0 \<rparr> \<rparr>)
       () = Inl (InvalidParameterError ''observation.sensors'')
   \<and> build False example_resources CPU example_parameters () =
       Inr \<lparr> state_transition = (),
             obsrv_model = \<lparr> backend = CPU, renderer = (0, ()),
                             pixel_model = observation example_parameters \<rparr>,
             quadrature = 1, fusion_rate = 1 \<rparr>"
proof -
  let ?tail = "example_parameters\<lparr> observation :=
      (observation example_parameters)\<lparr> tail_weight := 3 / 2 \<rparr> \<rparr>"
  let ?rate = "example_parameters\<lparr> update_rate := 0 \<rparr>"
  let ?sensors = "example_parameters\<lparr> observation :=
      (observation example_parameters)\<lparr> sensors := 0 \<rparr> \<rparr>"
  have t: "\<not> in_range Tail_weight ?tail" "\<forall>g. g \<noteq> Tail_weight \<longrightarrow> in_range g ?tail"
  proof -
    show "\<not> in_range Tail_weight ?tail" by (simp add: example_parameters_def)
    show "\<forall>g. g \<noteq> Tail_weight \<longrightarrow> in_range g ?tail"
    proof (intro allI impI)
      fix g :: Field assume "g \<noteq> Tail_weight"
      then show "in_range g ?tail" by (cases g) (simp_all add: example_parameters_def)
    qed
  qed
  have r: "\<not> in_range Update_rate ?rate" "\<forall>g. g \<noteq> Update_rate \<longrightarrow> in_range g ?rate"
  proof -
    show "\<not> in_range Update_rate ?rate" by (simp add: example_parameters_def)
    show "\<forall>g. g \<noteq> Update_rate \<longrightarrow> in_range g ?rate"
    proof (intro allI impI)
      fix g :: Field assume "g \<noteq> Update_rate"
      then show "in_range g ?rate" by (cases g) (simp_all add: example_parameters_def)
    qed
  qed
  have s: "\<not> in_range Sensors ?sensors" "\<forall>g. g \<noteq> Sensors \<longrightarrow> in_range g ?sensors"
  proof -
    show "\<not> in_range Sensors ?sensors" by (simp add: example_parameters_def)
    show "\<forall>g. g \<noteq> Sensors \<longrightarrow> in_range g ?sensors"
    proof (intro allI impI)
      fix g :: Field assume "g \<noteq> Sensors"
      then show "in_range g ?sensors" by (cases g) (simp_all add: example_parameters_def)
    qed
  qed
  have ok: "build False example_resources CPU example_parameters () =
       Inr \<lparr> state_transition = (),
             obsrv_model = \<lparr> backend = CPU, renderer = (0, ()),
                             pixel_model = observation example_parameters \<rparr>,
             quadrature = 1, fusion_rate = 1 \<rparr>"
    by (simp add: build_def validate_def create_object_model_def create_obsrv_model_def
        create_renderer_def create_object_transition_model_def example_parameters_def
        example_resources_def)
  from build_names_the_field_out_of_range[OF t, of False example_resources CPU "()"]
    build_names_the_field_out_of_range[OF r, of False example_resources CPU "()"]
    build_names_the_field_out_of_range[OF s, of False example_resources CPU "()"]
    ok
  show ?thesis by simp
qed




end
